theory Spec2Isabelle
  imports Main "HOL-Library.Word"
begin

unbundle bit_operations_syntax

section \<open>Data model of \<^verbatim>\<open>src/oauth.ts\<close>\<close>

text \<open>
  JavaScript strings are modelled as \<^typ>\<open>string\<close>, read as the UTF-8 bytes of the text.
  A query or body parameter of type \<^verbatim>\<open>string\<close> that may be \<^verbatim>\<open>undefined\<close> is a
  \<^typ>\<open>string option\<close>. Times are the integer milliseconds of \<^verbatim>\<open>Date.now()\<close>. Every
  value of \<^verbatim>\<open>randomUUID()\<close> and \<^verbatim>\<open>Date.now()\<close> is an argument of the handler
  that reads it, in the order the handler reads them.
\<close>

record OAuthConfig =
  serverUrl :: string
  googleClientId :: string
  googleClientSecret :: string

record RegisteredClient =
  rc_clientId :: string
  rc_clientSecret :: string
  rc_redirectUris :: "string list"
  rc_clientName :: string

record PendingAuth =
  pa_clientId :: string
  pa_redirectUri :: string
  pa_codeChallenge :: string
  pa_codeChallengeMethod :: string
  pa_clientState :: string
  pa_createdAt :: int

record AuthCode =
  ac_code :: string
  ac_clientId :: string
  ac_redirectUri :: string
  ac_codeChallenge :: string
  ac_codeChallengeMethod :: string
  ac_googleEmail :: string
  ac_expiresAt :: int

record StoredToken =
  st_clientId :: string
  st_googleEmail :: string
  st_expiresAt :: int

text \<open>The five module-level \<^verbatim>\<open>Map\<close>s, threaded through every handler.\<close>

record stores =
  clients :: "string \<rightharpoonup> RegisteredClient"
  pendingAuths :: "string \<rightharpoonup> PendingAuth"
  authCodes :: "string \<rightharpoonup> AuthCode"
  accessTokens :: "string \<rightharpoonup> StoredToken"
  refreshTokens :: "string \<rightharpoonup> StoredToken"

text \<open>
  \<^verbatim>\<open>Map.get\<close> and \<^verbatim>\<open>Map.delete\<close> with a key that may be \<^verbatim>\<open>undefined\<close>: the maps
  hold string keys only, so \<^verbatim>\<open>undefined\<close> finds nothing and deletes nothing.
\<close>

definition map_get :: "(string \<rightharpoonup> 'v) \<Rightarrow> string option \<Rightarrow> 'v option" where
  "map_get m k = (case k of None \<Rightarrow> None | Some key \<Rightarrow> m key)"

definition map_delete :: "(string \<rightharpoonup> 'v) \<Rightarrow> string option \<Rightarrow> (string \<rightharpoonup> 'v)" where
  "map_delete m k = (case k of None \<Rightarrow> m | Some key \<Rightarrow> m(key := None))"

text \<open>\<^verbatim>\<open>!x\<close> on a \<^verbatim>\<open>string | undefined\<close>: true for \<^verbatim>\<open>undefined\<close> and for the empty string.\<close>

definition falsy :: "string option \<Rightarrow> bool" where
  "falsy x = (case x of None \<Rightarrow> True | Some v \<Rightarrow> v = [])"

subsection \<open>Responses\<close>

datatype json = JString string | JNumber int | JArray "json list"

text \<open>
  A \<^verbatim>\<open>URL\<close> object: what precedes the query, and the list of its search parameters.
  \<^verbatim>\<open>res.redirect(url.toString())\<close> is \<open>Redirect url\<close> (status 302).
\<close>

datatype url = URL (url_base: string) (searchParams: "(string \<times> string) list")

datatype response =
    Json nat "(string \<times> json) list"
  | Send nat string
  | Redirect url

fun status :: "response \<Rightarrow> nat" where
  "status (Json code _) = code"
| "status (Send code _) = code"
| "status (Redirect _) = 302"

text \<open>The \<^verbatim>\<open>error\<close> member of a JSON body, when the response has one.\<close>

fun oauth_error :: "response \<Rightarrow> string option" where
  "oauth_error (Json _ body) =
     (case map_of body ''error'' of Some (JString e) \<Rightarrow> Some e | _ \<Rightarrow> None)"
| "oauth_error _ = None"

text \<open>
  \<^verbatim>\<open>URLSearchParams.set\<close>: the first pair of that name takes the value and the other
  pairs of that name are removed; with no such pair, the pair is appended.
\<close>

fun searchParams_set :: "string \<Rightarrow> string \<Rightarrow> (string \<times> string) list \<Rightarrow> (string \<times> string) list" where
  "searchParams_set k v [] = [(k, v)]"
| "searchParams_set k v (p # ps) =
     (if fst p = k then (k, v) # filter (\<lambda>q. fst q \<noteq> k) ps
      else p # searchParams_set k v ps)"

definition url_set :: "string \<Rightarrow> string \<Rightarrow> url \<Rightarrow> url" where
  "url_set k v u = URL (url_base u) (searchParams_set k v (searchParams u))"

section \<open>\<^verbatim>\<open>sha256\<close>: SHA-256 of the UTF-8 bytes, as base64url without padding\<close>

text \<open>
  \<^verbatim>\<open>createHash("sha256").update(input).digest("base64url")\<close> of \<^verbatim>\<open>node:crypto\<close>:
  the hash of FIPS 180-4 over the bytes of the string, then the base64url alphabet of
  RFC 4648 (section 5) with no \<^verbatim>\<open>=\<close> padding.
\<close>

type_synonym byte = "8 word"
type_synonym word32 = "32 word"

definition utf8_bytes :: "string \<Rightarrow> byte list" where
  "utf8_bytes s = map (\<lambda>c. word_of_nat (of_char c)) s"

definition rotr :: "nat \<Rightarrow> word32 \<Rightarrow> word32" where
  "rotr n x = drop_bit n x OR push_bit (32 - n) x"

definition Ch :: "word32 \<Rightarrow> word32 \<Rightarrow> word32 \<Rightarrow> word32" where
  "Ch x y z = (x AND y) XOR (NOT x AND z)"

definition Maj :: "word32 \<Rightarrow> word32 \<Rightarrow> word32 \<Rightarrow> word32" where
  "Maj x y z = (x AND y) XOR (x AND z) XOR (y AND z)"

definition big_sigma0 :: "word32 \<Rightarrow> word32" where
  "big_sigma0 x = rotr 2 x XOR rotr 13 x XOR rotr 22 x"

definition big_sigma1 :: "word32 \<Rightarrow> word32" where
  "big_sigma1 x = rotr 6 x XOR rotr 11 x XOR rotr 25 x"

definition small_sigma0 :: "word32 \<Rightarrow> word32" where
  "small_sigma0 x = rotr 7 x XOR rotr 18 x XOR drop_bit 3 x"

definition small_sigma1 :: "word32 \<Rightarrow> word32" where
  "small_sigma1 x = rotr 17 x XOR rotr 19 x XOR drop_bit 10 x"

text \<open>
  The 64 round constants (the first 32 bits of the fractional parts of the cube roots of
  the first 64 primes) and the initial hash value (of the square roots of the first 8).
\<close>

definition round_constants :: "word32 list" where
  "round_constants =
    [1116352408, 1899447441, 3049323471, 3921009573, 961987163, 1508970993,
     2453635748, 2870763221, 3624381080, 310598401, 607225278, 1426881987,
     1925078388, 2162078206, 2614888103, 3248222580, 3835390401, 4022224774,
     264347078, 604807628, 770255983, 1249150122, 1555081692, 1996064986,
     2554220882, 2821834349, 2952996808, 3210313671, 3336571891, 3584528711,
     113926993, 338241895, 666307205, 773529912, 1294757372, 1396182291,
     1695183700, 1986661051, 2177026350, 2456956037, 2730485921, 2820302411,
     3259730800, 3345764771, 3516065817, 3600352804, 4094571909, 275423344,
     430227734, 506948616, 659060556, 883997877, 958139571, 1322822218,
     1537002063, 1747873779, 1955562222, 2024104815, 2227730452, 2361852424,
     2428436474, 2756734187, 3204031479, 3329325298]"

definition initial_hash :: "word32 list" where
  "initial_hash =
    [1779033703, 3144134277, 1013904242, 2773480762,
     1359893119, 2600822924, 528734635, 1541459225]"

text \<open>The bytes of a word, most significant first.\<close>

definition be_bytes :: "'a::len word \<Rightarrow> byte list" where
  "be_bytes w = map (\<lambda>i. ucast (drop_bit (8 * i) w)) (rev [0..<LENGTH('a) div 8])"

text \<open>
  Padding: the byte \<open>0x80\<close>, zero bytes up to 56 modulo 64, and the length of the message
  in bits as a 64-bit big-endian number.
\<close>

definition sha_pad :: "byte list \<Rightarrow> byte list" where
  "sha_pad m = m @ [128] @ replicate ((119 - length m mod 64) mod 64) 0
                 @ be_bytes (word_of_nat (8 * length m) :: 64 word)"

fun be_words :: "byte list \<Rightarrow> word32 list" where
  "be_words (a # b # c # d # rest) =
     (push_bit 24 (ucast a) OR push_bit 16 (ucast b) OR push_bit 8 (ucast c) OR ucast d)
       # be_words rest"
| "be_words _ = []"

fun extend_schedule :: "nat \<Rightarrow> word32 list \<Rightarrow> word32 list" where
  "extend_schedule 0 w = w"
| "extend_schedule (Suc n) w =
     (let t = length w in
      extend_schedule n
        (w @ [small_sigma1 (w ! (t - 2)) + w ! (t - 7) + small_sigma0 (w ! (t - 15)) + w ! (t - 16)]))"

fun sha_round :: "word32 list \<Rightarrow> word32 \<times> word32 \<Rightarrow> word32 list" where
  "sha_round [a, b, c, d, e, f, g, h] (k, w) =
     (let t1 = h + big_sigma1 e + Ch e f g + k + w;
          t2 = big_sigma0 a + Maj a b c
      in [t1 + t2, a, b, c, d + t1, e, f, g])"
| "sha_round hs _ = hs"

definition compress :: "word32 list \<Rightarrow> byte list \<Rightarrow> word32 list" where
  "compress hs block =
     map2 (+) hs (foldl sha_round hs (zip round_constants (extend_schedule 48 (be_words block))))"

definition blocks64 :: "byte list \<Rightarrow> byte list list" where
  "blocks64 bs = map (\<lambda>i. take 64 (drop (64 * i) bs)) [0..<length bs div 64]"

definition sha256_digest :: "byte list \<Rightarrow> byte list" where
  "sha256_digest m =
     concat (map be_bytes (foldl compress initial_hash (blocks64 (sha_pad m))))"

definition base64url_alphabet :: string where
  "base64url_alphabet = ''ABCDEFGHIJKLMNOPQRSTUVWXYZabcdefghijklmnopqrstuvwxyz0123456789-_''"

definition sextet :: "byte \<Rightarrow> char" where
  "sextet v = base64url_alphabet ! unat (v AND 63)"

fun base64url :: "byte list \<Rightarrow> string" where
  "base64url (a # b # c # rest) =
     [sextet (drop_bit 2 a),
      sextet (push_bit 4 (a AND 3) OR drop_bit 4 b),
      sextet (push_bit 2 (b AND 15) OR drop_bit 6 c),
      sextet c] @ base64url rest"
| "base64url [a, b] =
     [sextet (drop_bit 2 a),
      sextet (push_bit 4 (a AND 3) OR drop_bit 4 b),
      sextet (push_bit 2 (b AND 15))]"
| "base64url [a] = [sextet (drop_bit 2 a), sextet (push_bit 4 (a AND 3))]"
| "base64url [] = []"

definition sha256 :: "string \<Rightarrow> string" where
  "sha256 input = base64url (sha256_digest (utf8_bytes input))"

section \<open>\<^verbatim>\<open>split(",")\<close> and \<^verbatim>\<open>trim()\<close>\<close>

text \<open>\<^verbatim>\<open>s.split(",")\<close>: the pieces between the commas; the empty string gives one empty piece.\<close>

fun split_on :: "char \<Rightarrow> string \<Rightarrow> string list" where
  "split_on sep [] = [[]]"
| "split_on sep (c # cs) =
     (if c = sep then [] # split_on sep cs
      else (case split_on sep cs of
              piece # pieces \<Rightarrow> (c # piece) # pieces
            | [] \<Rightarrow> [[c]]))"

text \<open>
  The UTF-8 encodings of the characters \<^verbatim>\<open>trim()\<close> removes: the ECMAScript white space
  (TAB, VT, FF, SP, NBSP, ZWNBSP and the Unicode space separators) and line terminators
  (LF, CR, LS, PS).
\<close>

definition js_whitespace :: "string list" where
  "js_whitespace =
     map (\<lambda>c. [c]) [CHR 0x09, CHR 0x0A, CHR 0x0B, CHR 0x0C, CHR 0x0D, CHR 0x20]
     @ [[CHR 0xC2, CHR 0xA0], [CHR 0xE1, CHR 0x9A, CHR 0x80]]
     @ map (\<lambda>c. [CHR 0xE2, CHR 0x80, c])
         [CHR 0x80, CHR 0x81, CHR 0x82, CHR 0x83, CHR 0x84, CHR 0x85, CHR 0x86, CHR 0x87,
          CHR 0x88, CHR 0x89, CHR 0x8A, CHR 0xA8, CHR 0xA9, CHR 0xAF]
     @ [[CHR 0xE2, CHR 0x81, CHR 0x9F], [CHR 0xE3, CHR 0x80, CHR 0x80],
        [CHR 0xEF, CHR 0xBB, CHR 0xBF]]"

function strip_leading :: "string list \<Rightarrow> string \<Rightarrow> string" where
  "strip_leading ws s =
     (case find (\<lambda>w. w \<noteq> [] \<and> take (length w) s = w) ws of
        None \<Rightarrow> s
      | Some w \<Rightarrow> strip_leading ws (drop (length w) s))"
  by pat_completeness auto
termination
proof (relation "measure (\<lambda>(ws, s). length s)")
  show "wf (measure (\<lambda>(ws, s). length s))"
    by simp
next
  fix ws :: "string list" and s w :: string
  assume "find (\<lambda>w. w \<noteq> [] \<and> take (length w) s = w) ws = Some w"
  then have "w \<noteq> []" and "take (length w) s = w"
    by (auto simp: find_Some_iff)
  then have "s \<noteq> []"
    by auto
  with \<open>w \<noteq> []\<close> show "((ws, drop (length w) s), (ws, s)) \<in> measure (\<lambda>(ws, s). length s)"
    by simp
qed

declare strip_leading.simps [simp del]

definition trim :: "string \<Rightarrow> string" where
  "trim s = rev (strip_leading (map rev js_whitespace) (rev (strip_leading js_whitespace s)))"

section \<open>The handlers of \<^verbatim>\<open>createOAuthRouter\<close>\<close>

text \<open>
  The two \<^verbatim>\<open>POST\<close> handlers read \<^verbatim>\<open>req.body\<close>, which is what the body parsers left: the
  object of the fields, or \<^verbatim>\<open>undefined\<close> when no parser read the request. Both
  destructure it in their first statement, before any check, and destructuring
  \<^verbatim>\<open>undefined\<close> throws a \<^verbatim>\<open>TypeError\<close>. An error thrown by a handler is answered by
  Express with status 500; the handler has changed nothing by then.
\<close>

datatype js_error = TypeError

subsection \<open>\<^verbatim>\<open>POST /oauth/register\<close>\<close>

text \<open>
  The body as the handler types it: \<^verbatim>\<open>client_name?: string\<close> and
  \<^verbatim>\<open>redirect_uris?: string[]\<close>. \<open>clientId\<close> and \<open>clientSecret\<close> are the two values of
  \<^verbatim>\<open>randomUUID()\<close>. \<open>register\<close> is the handler on the fields of a body that is there,
  \<open>register_request\<close> the handler on \<^verbatim>\<open>req.body\<close> as it is (\<open>None\<close> for \<^verbatim>\<open>undefined\<close>).
\<close>

record register_body =
  rb_client_name :: "string option"
  rb_redirect_uris :: "string list option"

definition register ::
  "string \<Rightarrow> string \<Rightarrow> register_body \<Rightarrow> stores \<Rightarrow> response \<times> stores" where
  "register clientId clientSecret body s =
     (case rb_redirect_uris body of
        None \<Rightarrow>
          (Json 400 [(''error'', JString ''invalid_client_metadata''),
                     (''error_description'', JString ''redirect_uris required'')], s)
      | Some redirect_uris \<Rightarrow>
          if length redirect_uris = 0 then
            (Json 400 [(''error'', JString ''invalid_client_metadata''),
                       (''error_description'', JString ''redirect_uris required'')], s)
          else
            (let client =
                   \<lparr>rc_clientId = clientId,
                    rc_clientSecret = clientSecret,
                    rc_redirectUris = redirect_uris,
                    rc_clientName = (if falsy (rb_client_name body) then ''unknown''
                                     else the (rb_client_name body))\<rparr>
             in (Json 201 [(''client_id'', JString clientId),
                           (''client_secret'', JString clientSecret),
                           (''client_name'', JString (rc_clientName client)),
                           (''redirect_uris'', JArray (map JString (rc_redirectUris client)))],
                 s\<lparr>clients := (clients s)(clientId \<mapsto> client)\<rparr>)))"

definition register_request ::
  "string \<Rightarrow> string \<Rightarrow> register_body option \<Rightarrow> stores \<Rightarrow> (js_error + response) \<times> stores" where
  "register_request clientId clientSecret body s =
     (case body of
        None \<Rightarrow> (Inl TypeError, s)
      | Some b \<Rightarrow>
          (case register clientId clientSecret b s of (r, s') \<Rightarrow> (Inr r, s')))"

subsection \<open>\<^verbatim>\<open>GET /oauth/authorize\<close>\<close>

record authorize_query =
  aq_response_type :: "string option"
  aq_client_id :: "string option"
  aq_redirect_uri :: "string option"
  aq_code_challenge :: "string option"
  aq_code_challenge_method :: "string option"
  aq_state :: "string option"

definition googleAuthUrl :: "OAuthConfig \<Rightarrow> string \<Rightarrow> url" where
  "googleAuthUrl config googleState =
     url_set ''prompt'' ''consent''
       (url_set ''access_type'' ''offline''
         (url_set ''state'' googleState
           (url_set ''scope'' ''openid email''
             (url_set ''response_type'' ''code''
               (url_set ''redirect_uri'' (serverUrl config @ ''/oauth/callback'')
                 (url_set ''client_id'' (googleClientId config)
                   (URL ''https://accounts.google.com/o/oauth2/v2/auth'' [])))))))"

text \<open>
  \<open>authorize config googleState now q s\<close>: \<open>googleState\<close> is the value of
  \<^verbatim>\<open>randomUUID()\<close>, \<open>now\<close> that of \<^verbatim>\<open>Date.now()\<close>.
\<close>

definition authorize ::
  "OAuthConfig \<Rightarrow> string \<Rightarrow> int \<Rightarrow> authorize_query \<Rightarrow> stores \<Rightarrow> response \<times> stores" where
  "authorize config googleState now q s =
     (if aq_response_type q \<noteq> Some ''code'' then
        (Json 400 [(''error'', JString ''unsupported_response_type'')], s)
      else if falsy (aq_client_id q) \<or> falsy (aq_redirect_uri q) then
        (Json 400 [(''error'', JString ''invalid_request''),
                   (''error_description'', JString ''client_id and redirect_uri required'')], s)
      else if falsy (aq_code_challenge q) \<or> aq_code_challenge_method q \<noteq> Some ''S256'' then
        (Json 400 [(''error'', JString ''invalid_request''),
                   (''error_description'', JString ''PKCE with S256 required'')], s)
      else
        (Redirect (googleAuthUrl config googleState),
         s\<lparr>pendingAuths := (pendingAuths s)(googleState \<mapsto>
             \<lparr>pa_clientId = the (aq_client_id q),
              pa_redirectUri = the (aq_redirect_uri q),
              pa_codeChallenge = the (aq_code_challenge q),
              pa_codeChallengeMethod = the (aq_code_challenge_method q),
              pa_clientState = (if falsy (aq_state q) then [] else the (aq_state q)),
              pa_createdAt = now\<rparr>)\<rparr>))"

subsection \<open>\<^verbatim>\<open>GET /oauth/callback\<close>\<close>

record callback_query =
  cq_code :: "string option"
  cq_state :: "string option"
  cq_error :: "string option"

text \<open>
  The outcome of \<^verbatim>\<open>await exchangeGoogleCode(...)\<close>, which is network traffic with
  Google: it throws, or it returns the email.
\<close>

datatype exchange_outcome = Threw | Resolved string

text \<open>
  The handler up to the \<^verbatim>\<open>await\<close>: the error and state checks and the deletion of the
  pending authorization. It answers (\<open>Inl\<close>) or goes on with the pending authorization
  it found (\<open>Inr\<close>).
\<close>

definition callback_begin ::
  "callback_query \<Rightarrow> stores \<Rightarrow> (response + PendingAuth) \<times> stores" where
  "callback_begin q s =
     (if \<not> falsy (cq_error q) then
        (Inl (Send 400 (''OAuth error: '' @ the (cq_error q))), s)
      else
        (case map_get (pendingAuths s) (cq_state q) of
           None \<Rightarrow> (Inl (Send 400 ''Invalid or expired state parameter''), s)
         | Some pending \<Rightarrow>
             (Inr pending, s\<lparr>pendingAuths := map_delete (pendingAuths s) (cq_state q)\<rparr>)))"

text \<open>
  \<^verbatim>\<open>process.env.ALLOWED_EMAILS?.split(",").map((e) => e.trim())\<close>, of the environment
  variable or \<^verbatim>\<open>undefined\<close>.
\<close>

definition allowedEmails :: "string option \<Rightarrow> string list option" where
  "allowedEmails env = map_option (\<lambda>v. map trim (split_on CHR '','' v)) env"

text \<open>
  The handler after the \<^verbatim>\<open>await\<close>, on the stores as they are then. \<open>env\<close> is
  \<^verbatim>\<open>process.env.ALLOWED_EMAILS\<close>; \<open>parse\<close> is \<^verbatim>\<open>new URL(...)\<close>, \<open>None\<close> where it
  throws; \<open>ourCode\<close> is the value of \<^verbatim>\<open>randomUUID()\<close>. Whatever the \<^verbatim>\<open>try\<close> block
  throws is answered with status 500.
\<close>

definition callback_resume ::
  "string option \<Rightarrow> (string \<Rightarrow> url option) \<Rightarrow> exchange_outcome \<Rightarrow> string \<Rightarrow> int \<Rightarrow>
     PendingAuth \<Rightarrow> stores \<Rightarrow> response \<times> stores" where
  "callback_resume env parse outcome ourCode now pending s =
     (case outcome of
        Threw \<Rightarrow> (Send 500 ''Authentication failed'', s)
      | Resolved email \<Rightarrow>
          (let allowed = allowedEmails env in
           if allowed \<noteq> None \<and> email \<notin> set (the allowed) then
             (Send 403 ''Access denied'', s)
           else
             (let s' = s\<lparr>authCodes := (authCodes s)(ourCode \<mapsto>
                         \<lparr>ac_code = ourCode,
                          ac_clientId = pa_clientId pending,
                          ac_redirectUri = pa_redirectUri pending,
                          ac_codeChallenge = pa_codeChallenge pending,
                          ac_codeChallengeMethod = pa_codeChallengeMethod pending,
                          ac_googleEmail = email,
                          ac_expiresAt = now + 5 * 60000\<rparr>)\<rparr>
              in case parse (pa_redirectUri pending) of
                   None \<Rightarrow> (Send 500 ''Authentication failed'', s')
                 | Some redirectUrl \<Rightarrow>
                     (Redirect
                        (if pa_clientState pending \<noteq> [] then
                           url_set ''state'' (pa_clientState pending)
                             (url_set ''code'' ourCode redirectUrl)
                         else url_set ''code'' ourCode redirectUrl),
                      s'))))"

text \<open>The whole handler, when nothing else runs while it awaits the exchange.\<close>

definition callback ::
  "string option \<Rightarrow> (string \<Rightarrow> url option) \<Rightarrow> exchange_outcome \<Rightarrow> string \<Rightarrow> int \<Rightarrow>
     callback_query \<Rightarrow> stores \<Rightarrow> response \<times> stores" where
  "callback env parse outcome ourCode now q s =
     (case callback_begin q s of
        (Inl r, s') \<Rightarrow> (r, s')
      | (Inr pending, s') \<Rightarrow> callback_resume env parse outcome ourCode now pending s')"

subsection \<open>\<^verbatim>\<open>POST /oauth/token\<close>\<close>

record token_body =
  tb_grant_type :: "string option"
  tb_code :: "string option"
  tb_redirect_uri :: "string option"
  tb_client_id :: "string option"
  tb_client_secret :: "string option"
  tb_code_verifier :: "string option"
  tb_refresh_token :: "string option"

text \<open>
  The \<^verbatim>\<open>authorization_code\<close> branch. \<open>accessToken\<close> and \<open>refreshTok\<close> are the two
  values of \<^verbatim>\<open>randomUUID()\<close>; \<open>now\<close> is \<^verbatim>\<open>Date.now()\<close> at the expiry check and
  \<open>now'\<close> is \<^verbatim>\<open>Date.now()\<close> when the access token is stored.
\<close>

definition authorization_code_grant ::
  "string \<Rightarrow> string \<Rightarrow> int \<Rightarrow> int \<Rightarrow> token_body \<Rightarrow> stores \<Rightarrow> response \<times> stores" where
  "authorization_code_grant accessToken refreshTok now now' b s =
     (case map_get (authCodes s) (tb_code b) of
        None \<Rightarrow>
          (Json 400 [(''error'', JString ''invalid_grant''),
                     (''error_description'', JString ''Invalid or expired code'')], s)
      | Some authCode \<Rightarrow>
          (let s' = s\<lparr>authCodes := map_delete (authCodes s) (tb_code b)\<rparr> in
           if now > ac_expiresAt authCode then
             (Json 400 [(''error'', JString ''invalid_grant''),
                        (''error_description'', JString ''Code expired'')], s')
           else if Some (ac_clientId authCode) \<noteq> tb_client_id b
                   \<or> Some (ac_redirectUri authCode) \<noteq> tb_redirect_uri b then
             (Json 400 [(''error'', JString ''invalid_grant''),
                        (''error_description'', JString ''Client/redirect mismatch'')], s')
           else if falsy (tb_code_verifier b)
                   \<or> sha256 (the (tb_code_verifier b)) \<noteq> ac_codeChallenge authCode then
             (Json 400 [(''error'', JString ''invalid_grant''),
                        (''error_description'', JString ''PKCE verification failed'')], s')
           else
             (let expiresIn = 3600 in
              (Json 200 [(''access_token'', JString accessToken),
                         (''token_type'', JString ''Bearer''),
                         (''expires_in'', JNumber expiresIn),
                         (''refresh_token'', JString refreshTok)],
               s'\<lparr>accessTokens := (accessTokens s')(accessToken \<mapsto>
                      \<lparr>st_clientId = the (tb_client_id b),
                       st_googleEmail = ac_googleEmail authCode,
                       st_expiresAt = now' + expiresIn * 1000\<rparr>),
                   refreshTokens := (refreshTokens s')(refreshTok \<mapsto>
                      \<lparr>st_clientId = the (tb_client_id b),
                       st_googleEmail = ac_googleEmail authCode,
                       st_expiresAt = 0\<rparr>)\<rparr>))))"

text \<open>
  The \<^verbatim>\<open>refresh_token\<close> branch. \<open>accessToken\<close> is the value of \<^verbatim>\<open>randomUUID()\<close>,
  \<open>now'\<close> that of \<^verbatim>\<open>Date.now()\<close>.
\<close>

definition refresh_token_grant ::
  "string \<Rightarrow> int \<Rightarrow> token_body \<Rightarrow> stores \<Rightarrow> response \<times> stores" where
  "refresh_token_grant accessToken now' b s =
     (case map_get (refreshTokens s) (tb_refresh_token b) of
        None \<Rightarrow>
          (Json 400 [(''error'', JString ''invalid_grant''),
                     (''error_description'', JString ''Invalid refresh token'')], s)
      | Some stored \<Rightarrow>
          if Some (st_clientId stored) \<noteq> tb_client_id b then
            (Json 400 [(''error'', JString ''invalid_grant''),
                       (''error_description'', JString ''Invalid refresh token'')], s)
          else
            (let expiresIn = 3600 in
             (Json 200 [(''access_token'', JString accessToken),
                        (''token_type'', JString ''Bearer''),
                        (''expires_in'', JNumber expiresIn)],
              s\<lparr>accessTokens := (accessTokens s)(accessToken \<mapsto>
                    \<lparr>st_clientId = the (tb_client_id b),
                     st_googleEmail = st_googleEmail stored,
                     st_expiresAt = now' + expiresIn * 1000\<rparr>)\<rparr>)))"

text \<open>
  The handler on the fields of a body that is there (from line 284 on): the
  \<^verbatim>\<open>client_id\<close> and client secret checks, then the branch of the grant type.
\<close>

definition token ::
  "string \<Rightarrow> string \<Rightarrow> int \<Rightarrow> int \<Rightarrow> token_body \<Rightarrow> stores \<Rightarrow> response \<times> stores" where
  "token uuid1 uuid2 now now' b s =
     (if falsy (tb_client_id b) then
        (Json 400 [(''error'', JString ''invalid_request''),
                   (''error_description'', JString ''client_id required'')], s)
      else
        (let client = clients s (the (tb_client_id b)) in
         if client \<noteq> None \<and> Some (rc_clientSecret (the client)) \<noteq> tb_client_secret b then
           (Json 401 [(''error'', JString ''invalid_client'')], s)
         else if tb_grant_type b = Some ''authorization_code'' then
           authorization_code_grant uuid1 uuid2 now now' b s
         else if tb_grant_type b = Some ''refresh_token'' then
           refresh_token_grant uuid1 now' b s
         else
           (Json 400 [(''error'', JString ''unsupported_grant_type'')], s)))"

text \<open>
  The handler on \<^verbatim>\<open>req.body\<close> as it is (\<open>None\<close> for \<^verbatim>\<open>undefined\<close>): the destructuring
  of line 281 comes first, and throws when there is no body.
\<close>

definition token_request ::
  "string \<Rightarrow> string \<Rightarrow> int \<Rightarrow> int \<Rightarrow> token_body option \<Rightarrow> stores \<Rightarrow>
     (js_error + response) \<times> stores" where
  "token_request uuid1 uuid2 now now' body s =
     (case body of
        None \<Rightarrow> (Inl TypeError, s)
      | Some b \<Rightarrow>
          (case token uuid1 uuid2 now now' b s of (r, s') \<Rightarrow> (Inr r, s')))"

section \<open>\<^verbatim>\<open>requireAuth\<close>, the middleware of \<^verbatim>\<open>/mcp\<close>\<close>

datatype middleware_result = Next | Respond response

definition unauthorized :: response where
  "unauthorized = Json 401 [(''error'', JString ''Unauthorized'')]"

text \<open>\<open>authHeader\<close> is \<^verbatim>\<open>req.headers.authorization\<close>, \<open>now\<close> the value of \<^verbatim>\<open>Date.now()\<close>.\<close>

definition requireAuth :: "int \<Rightarrow> string option \<Rightarrow> stores \<Rightarrow> middleware_result" where
  "requireAuth now authHeader s =
     (case authHeader of
        None \<Rightarrow> Respond unauthorized
      | Some h \<Rightarrow>
          if take 7 h \<noteq> ''Bearer '' then Respond unauthorized
          else
            (case accessTokens s (drop 7 h) of
               None \<Rightarrow> Respond unauthorized
             | Some stored \<Rightarrow>
                 if now > st_expiresAt stored then Respond unauthorized else Next))"

section \<open>The cleanup timer\<close>

text \<open>One run of the \<^verbatim>\<open>setInterval\<close> callback at time \<open>now\<close>.\<close>

definition sweep :: "int \<Rightarrow> stores \<Rightarrow> stores" where
  "sweep now s =
     s\<lparr>pendingAuths := (\<lambda>k. case pendingAuths s k of
                              None \<Rightarrow> None
                            | Some v \<Rightarrow> if now - pa_createdAt v > 10 * 60000 then None else Some v),
       authCodes := (\<lambda>k. case authCodes s k of
                           None \<Rightarrow> None
                         | Some v \<Rightarrow> if now > ac_expiresAt v then None else Some v),
       accessTokens := (\<lambda>k. case accessTokens s k of
                              None \<Rightarrow> None
                            | Some v \<Rightarrow> if now > st_expiresAt v then None else Some v)\<rparr>"

section \<open>Example stores and requests\<close>

text \<open>Concrete inputs, on which the properties below are evaluated.\<close>

definition ex_token :: StoredToken where
  "ex_token = \<lparr>st_clientId = ''client-1'', st_googleEmail = ''a@x.com'', st_expiresAt = 1000\<rparr>"

definition ex_stores :: stores where
  "ex_stores =
     \<lparr>clients = Map.empty, pendingAuths = Map.empty, authCodes = Map.empty,
      accessTokens = [''tok-1'' \<mapsto> ex_token],
      refreshTokens = [''ref-1'' \<mapsto> ex_token\<lparr>st_expiresAt := 0\<rparr>]\<rparr>"

definition ex_refresh_body :: token_body where
  "ex_refresh_body =
     \<lparr>tb_grant_type = Some ''refresh_token'', tb_code = None, tb_redirect_uri = None,
      tb_client_id = Some ''client-1'', tb_client_secret = None, tb_code_verifier = None,
      tb_refresh_token = Some ''ref-1''\<rparr>"

definition ex_config :: OAuthConfig where
  "ex_config = \<lparr>serverUrl = ''https://mcp.example'', googleClientId = ''google-id'',
     googleClientSecret = ''google-secret''\<rparr>"

definition ex_query :: authorize_query where
  "ex_query =
     \<lparr>aq_response_type = Some ''code'', aq_client_id = Some ''client-1'',
      aq_redirect_uri = Some ''https://client.example/cb'',
      aq_code_challenge = Some ''E9Melhoa2OwvFrEMTJguCHaoeK1t8URWbuGJSstw-cM'',
      aq_code_challenge_method = Some ''S256'', aq_state = Some ''xyz''\<rparr>"

definition ex_query' :: authorize_query where
  "ex_query' =
     \<lparr>aq_response_type = Some ''code'', aq_client_id = Some ''client-2'',
      aq_redirect_uri = Some ''https://other.example/done'',
      aq_code_challenge = Some ''ungWv48Bz-pBQUDeXa4iI7ADYaOWF3qctBD_YfIAFa0'',
      aq_code_challenge_method = Some ''S256'', aq_state = None\<rparr>"

definition ex_client :: RegisteredClient where
  "ex_client = \<lparr>rc_clientId = ''client-1'', rc_clientSecret = ''secret-1'',
     rc_redirectUris = [''https://client.example/cb''], rc_clientName = ''unknown''\<rparr>"

definition ex_pending :: PendingAuth where
  "ex_pending =
     \<lparr>pa_clientId = ''client-1'', pa_redirectUri = ''https://client.example/cb'',
      pa_codeChallenge = ''E9Melhoa2OwvFrEMTJguCHaoeK1t8URWbuGJSstw-cM'',
      pa_codeChallengeMethod = ''S256'', pa_clientState = ''xyz'', pa_createdAt = 100\<rparr>"

definition ex_pending_stores :: stores where
  "ex_pending_stores = ex_stores\<lparr>pendingAuths := [''state-1'' \<mapsto> ex_pending]\<rparr>"

definition ex_callback :: callback_query where
  "ex_callback = \<lparr>cq_code = Some ''google-code'', cq_state = Some ''state-1'', cq_error = None\<rparr>"

text \<open>A stand-in for \<^verbatim>\<open>new URL(...)\<close> on the one address the examples use.\<close>

definition ex_parse :: "string \<Rightarrow> url option" where
  "ex_parse a = (if a = ''https://client.example/cb'' then Some (URL a []) else None)"

definition ex_no_fields :: token_body where
  "ex_no_fields =
     \<lparr>tb_grant_type = None, tb_code = None, tb_redirect_uri = None, tb_client_id = None,
      tb_client_secret = None, tb_code_verifier = None, tb_refresh_token = None\<rparr>"


definition ex_code :: AuthCode where
  "ex_code =
     \<lparr>ac_code = ''code-1'', ac_clientId = ''client-1'',
      ac_redirectUri = ''https://client.example/cb'',
      ac_codeChallenge = ''E9Melhoa2OwvFrEMTJguCHaoeK1t8URWbuGJSstw-cM'',
      ac_codeChallengeMethod = ''S256'', ac_googleEmail = ''a@x.com'',
      ac_expiresAt = 300200\<rparr>"

definition ex_code_stores :: stores where
  "ex_code_stores = ex_stores\<lparr>authCodes := [''code-1'' \<mapsto> ex_code]\<rparr>"

definition ex_code_body :: token_body where
  "ex_code_body =
     \<lparr>tb_grant_type = Some ''authorization_code'', tb_code = Some ''code-1'',
      tb_redirect_uri = Some ''https://client.example/cb'',
      tb_client_id = Some ''client-1'', tb_client_secret = None,
      tb_code_verifier = Some ''dBjftJeZ4CVP-mB92K27uhbUJU1p1r_wW1gFWFOEjXk'',
      tb_refresh_token = None\<rparr>"

definition ex_empty_code_stores :: stores where
  "ex_empty_code_stores =
     ex_stores\<lparr>authCodes := [''code-1'' \<mapsto>
       ex_code\<lparr>ac_codeChallenge := ''47DEQpj8HBSa-_TImW-5JCeuQeRkm5NMpJWZG3hSuFU''\<rparr>]\<rparr>"

definition ex_register :: register_body where
  "ex_register = \<lparr>rb_client_name = None, rb_redirect_uris = Some [''https://client.example/cb'']\<rparr>"

definition ex_registered_stores :: stores where
  "ex_registered_stores = ex_stores\<lparr>clients := [''client-1'' \<mapsto> ex_client]\<rparr>"

section \<open>Bearer enforcement\<close>

lemma requireAuth_cases:
  "requireAuth now authHeader s = Next \<or> requireAuth now authHeader s = Respond unauthorized"
  by (simp add: requireAuth_def split: option.split)

lemma requireAuth_Next_iff:
  "requireAuth now authHeader s = Next \<longleftrightarrow>
     (\<exists>h stored. authHeader = Some h \<and> take 7 h = ''Bearer '' \<and>
        accessTokens s (drop 7 h) = Some stored \<and> \<not> now > st_expiresAt stored)"
  by (auto simp add: requireAuth_def split: option.split)

text \<open>
  C8. Whatever makes \<^verbatim>\<open>requireAuth\<close> refuse a request (no \<^verbatim>\<open>Authorization\<close> header, a
  header that does not start with \<^verbatim>\<open>Bearer \<close>, a token that is not in the access-token
  store, a token past its expiry time), the response is the same: status 401 with the
  JSON body \<^verbatim>\<open>{error: "Unauthorized"}\<close>. The middleware has no other refusal.
\<close>

theorem requireAuth_failures_identical:
  "requireAuth now None s = Respond (Json 401 [(''error'', JString ''Unauthorized'')])
   \<and> (take 7 h \<noteq> ''Bearer '' \<longrightarrow>
        requireAuth now (Some h) s = Respond (Json 401 [(''error'', JString ''Unauthorized'')]))
   \<and> (accessTokens s tok = None \<longrightarrow>
        requireAuth now (Some (''Bearer '' @ tok)) s
          = Respond (Json 401 [(''error'', JString ''Unauthorized'')]))
   \<and> (accessTokens s tok = Some stored \<and> now > st_expiresAt stored \<longrightarrow>
        requireAuth now (Some (''Bearer '' @ tok)) s
          = Respond (Json 401 [(''error'', JString ''Unauthorized'')]))
   \<and> (requireAuth now authHeader s \<noteq> Next \<longrightarrow>
        requireAuth now authHeader s
          = Respond (Json 401 [(''error'', JString ''Unauthorized'')]))"
  using requireAuth_cases [of now authHeader s]
  by (auto simp add: requireAuth_def unauthorized_def)

theorem requireAuth_failures_identical_witness:
  "requireAuth 2000 None ex_stores = Respond (Json 401 [(''error'', JString ''Unauthorized'')])
   \<and> take 7 ''Basic dXNlcg'' \<noteq> ''Bearer ''
   \<and> requireAuth 2000 (Some ''Basic dXNlcg'') ex_stores
        = Respond (Json 401 [(''error'', JString ''Unauthorized'')])
   \<and> accessTokens ex_stores ''tok-9'' = None
   \<and> requireAuth 2000 (Some ''Bearer tok-9'') ex_stores
        = Respond (Json 401 [(''error'', JString ''Unauthorized'')])
   \<and> accessTokens ex_stores ''tok-1'' = Some ex_token \<and> 2000 > st_expiresAt ex_token
   \<and> requireAuth 2000 (Some ''Bearer tok-1'') ex_stores
        = Respond (Json 401 [(''error'', JString ''Unauthorized'')])
   \<and> requireAuth 500 (Some ''Bearer tok-1'') ex_stores = Next"
  using
    requireAuth_failures_identical [where now = 2000 and s = ex_stores and h = "''Basic dXNlcg''"]
    requireAuth_failures_identical [where now = 2000 and s = ex_stores and tok = "''tok-9''"]
    requireAuth_failures_identical
      [where now = 2000 and s = ex_stores and tok = "''tok-1''" and stored = ex_token]
  by (simp add: ex_stores_def ex_token_def requireAuth_def)

lemma requireAuth_bearer:
  "accessTokens s tok = Some stored \<Longrightarrow>
     (requireAuth t (Some (''Bearer '' @ tok)) s = Next) = (\<not> t > st_expiresAt stored)"
  by (simp add: requireAuth_def)

text \<open>Every successful call of the token endpoint has stored the access token it returns.\<close>

lemma token_success_access_token:
  assumes "token uuid1 uuid2 now now' b s = (r, s')" and "status r = 200"
  shows "\<exists>body stored. r = Json 200 body \<and> map_of body ''access_token'' = Some (JString uuid1)
           \<and> map_of body ''expires_in'' = Some (JNumber 3600)
           \<and> accessTokens s' uuid1 = Some stored \<and> st_expiresAt stored = now' + 3600 * 1000"
  using assms
  by (auto simp add: token_def authorization_code_grant_def refresh_token_grant_def Let_def
      split: if_splits option.splits)

section \<open>The authorization endpoint\<close>

lemma authorize_unsupported_response_type:
  "aq_response_type q \<noteq> Some ''code'' \<Longrightarrow>
     authorize config googleState now q s
       = (Json 400 [(''error'', JString ''unsupported_response_type'')], s)"
  by (simp add: authorize_def)

lemma authorize_invalid_request:
  assumes "aq_response_type q = Some ''code''"
    and "falsy (aq_client_id q) \<or> falsy (aq_redirect_uri q) \<or> falsy (aq_code_challenge q)
         \<or> aq_code_challenge_method q \<noteq> Some ''S256''"
  shows "oauth_error (fst (authorize config googleState now q s)) = Some ''invalid_request''
         \<and> status (fst (authorize config googleState now q s)) = 400
         \<and> snd (authorize config googleState now q s) = s"
  using assms by (auto simp add: authorize_def)

lemma googleAuthUrl_params:
  "googleAuthUrl config googleState =
     URL ''https://accounts.google.com/o/oauth2/v2/auth''
       [(''client_id'', googleClientId config),
        (''redirect_uri'', serverUrl config @ ''/oauth/callback''),
        (''response_type'', ''code''),
        (''scope'', ''openid email''),
        (''state'', googleState),
        (''access_type'', ''offline''),
        (''prompt'', ''consent'')]"
  by (simp add: googleAuthUrl_def url_set_def)

lemma authorize_accepts:
  assumes "aq_response_type q = Some ''code''"
    and "\<not> falsy (aq_client_id q)" and "\<not> falsy (aq_redirect_uri q)"
    and "\<not> falsy (aq_code_challenge q)" and "aq_code_challenge_method q = Some ''S256''"
  shows "authorize config googleState now q s =
     (Redirect (googleAuthUrl config googleState),
      s\<lparr>pendingAuths := (pendingAuths s)(googleState \<mapsto>
          \<lparr>pa_clientId = the (aq_client_id q),
           pa_redirectUri = the (aq_redirect_uri q),
           pa_codeChallenge = the (aq_code_challenge q),
           pa_codeChallengeMethod = ''S256'',
           pa_clientState = (if falsy (aq_state q) then [] else the (aq_state q)),
           pa_createdAt = now\<rparr>)\<rparr>)"
  using assms by (simp add: authorize_def)

text \<open>
  C6. A call of \<^verbatim>\<open>/oauth/authorize\<close> whose \<^verbatim>\<open>response_type\<close> is not \<^verbatim>\<open>code\<close> is answered
  with status 400 and error \<^verbatim>\<open>unsupported_response_type\<close>. Otherwise, when
  \<^verbatim>\<open>client_id\<close>, \<^verbatim>\<open>redirect_uri\<close> or \<^verbatim>\<open>code_challenge\<close> is missing (or empty), or
  \<^verbatim>\<open>code_challenge_method\<close> is not \<^verbatim>\<open>S256\<close>, it is answered with status 400 and error
  \<^verbatim>\<open>invalid_request\<close>. In each of these cases the stores, the pending authorizations
  among them, are what they were before the call.
\<close>

theorem authorize_rejections:
  "(aq_response_type q \<noteq> Some ''code'' \<longrightarrow>
      oauth_error (fst (authorize config googleState now q s)) = Some ''unsupported_response_type''
      \<and> status (fst (authorize config googleState now q s)) = 400
      \<and> snd (authorize config googleState now q s) = s)
   \<and> (aq_response_type q = Some ''code''
        \<and> (falsy (aq_client_id q) \<or> falsy (aq_redirect_uri q) \<or> falsy (aq_code_challenge q)
             \<or> aq_code_challenge_method q \<noteq> Some ''S256'') \<longrightarrow>
      oauth_error (fst (authorize config googleState now q s)) = Some ''invalid_request''
      \<and> status (fst (authorize config googleState now q s)) = 400
      \<and> snd (authorize config googleState now q s) = s)"
  using authorize_invalid_request [of q config googleState now s]
  by (simp add: authorize_unsupported_response_type)

theorem authorize_rejections_witness:
  "aq_response_type (ex_query\<lparr>aq_response_type := Some ''token''\<rparr>) \<noteq> Some ''code''
   \<and> authorize ex_config ''state-1'' 100 (ex_query\<lparr>aq_response_type := Some ''token''\<rparr>)
         ex_stores
       = (Json 400 [(''error'', JString ''unsupported_response_type'')], ex_stores)
   \<and> aq_response_type (ex_query\<lparr>aq_client_id := None\<rparr>) = Some ''code''
   \<and> falsy (aq_client_id (ex_query\<lparr>aq_client_id := None\<rparr>))
   \<and> oauth_error (fst (authorize ex_config ''state-1'' 100 (ex_query\<lparr>aq_client_id := None\<rparr>)
         ex_stores)) = Some ''invalid_request''
   \<and> snd (authorize ex_config ''state-1'' 100 (ex_query\<lparr>aq_client_id := None\<rparr>) ex_stores)
       = ex_stores
   \<and> aq_code_challenge_method (ex_query\<lparr>aq_code_challenge_method := Some ''plain''\<rparr>)
       \<noteq> Some ''S256''
   \<and> oauth_error (fst (authorize ex_config ''state-1'' 100
         (ex_query\<lparr>aq_code_challenge_method := Some ''plain''\<rparr>) ex_stores))
       = Some ''invalid_request''
   \<and> pendingAuths (snd (authorize ex_config ''state-1'' 100
         (ex_query\<lparr>aq_code_challenge_method := Some ''plain''\<rparr>) ex_stores))
       = pendingAuths ex_stores"
  using
    authorize_rejections
      [of "ex_query\<lparr>aq_response_type := Some ''token''\<rparr>" ex_config "''state-1''" 100 ex_stores]
    authorize_rejections
      [of "ex_query\<lparr>aq_client_id := None\<rparr>" ex_config "''state-1''" 100 ex_stores]
    authorize_rejections
      [of "ex_query\<lparr>aq_code_challenge_method := Some ''plain''\<rparr>" ex_config "''state-1''" 100
        ex_stores]
  by (simp add: ex_query_def falsy_def authorize_def)

text \<open>
  C9. A call of \<^verbatim>\<open>/oauth/authorize\<close> that passes the checks writes one pending
  authorization, under the generated state \<open>googleState\<close>, and changes nothing else in the
  stores. The redirect to the IdP is built from the server's configuration and
  \<open>googleState\<close> alone: its \<^verbatim>\<open>state\<close> parameter is \<open>googleState\<close>, and a second accepted call
  with any other \<^verbatim>\<open>client_id\<close>, \<^verbatim>\<open>redirect_uri\<close>, \<^verbatim>\<open>code_challenge\<close> and \<^verbatim>\<open>state\<close> (at any
  time, on any stores) is redirected to the same URL when the generated state is the same.
\<close>

theorem authorize_hides_caller_from_idp:
  assumes "aq_response_type q = Some ''code''"
    and "\<not> falsy (aq_client_id q)" and "\<not> falsy (aq_redirect_uri q)"
    and "\<not> falsy (aq_code_challenge q)" and "aq_code_challenge_method q = Some ''S256''"
    and "aq_response_type q' = Some ''code''"
    and "\<not> falsy (aq_client_id q')" and "\<not> falsy (aq_redirect_uri q')"
    and "\<not> falsy (aq_code_challenge q')" and "aq_code_challenge_method q' = Some ''S256''"
  shows "snd (authorize config googleState now q s) =
           s\<lparr>pendingAuths := (pendingAuths s)(googleState \<mapsto>
               \<lparr>pa_clientId = the (aq_client_id q),
                pa_redirectUri = the (aq_redirect_uri q),
                pa_codeChallenge = the (aq_code_challenge q),
                pa_codeChallengeMethod = ''S256'',
                pa_clientState = (if falsy (aq_state q) then [] else the (aq_state q)),
                pa_createdAt = now\<rparr>)\<rparr>
         \<and> dom (pendingAuths (snd (authorize config googleState now q s)))
             = insert googleState (dom (pendingAuths s))
         \<and> (\<forall>k. k = googleState
                \<or> pendingAuths (snd (authorize config googleState now q s)) k
                    = pendingAuths s k)
         \<and> fst (authorize config googleState now q s) =
             Redirect (URL ''https://accounts.google.com/o/oauth2/v2/auth''
               [(''client_id'', googleClientId config),
                (''redirect_uri'', serverUrl config @ ''/oauth/callback''),
                (''response_type'', ''code''),
                (''scope'', ''openid email''),
                (''state'', googleState),
                (''access_type'', ''offline''),
                (''prompt'', ''consent'')])
         \<and> fst (authorize config googleState now' q' s')
             = fst (authorize config googleState now q s)"
  by (simp add: authorize_accepts [OF assms(1-5)] authorize_accepts [OF assms(6-10)]
      googleAuthUrl_params)

theorem authorize_hides_caller_from_idp_witness:
  "aq_response_type ex_query = Some ''code'' \<and> \<not> falsy (aq_client_id ex_query)
   \<and> \<not> falsy (aq_redirect_uri ex_query) \<and> \<not> falsy (aq_code_challenge ex_query)
   \<and> aq_code_challenge_method ex_query = Some ''S256''
   \<and> aq_response_type ex_query' = Some ''code'' \<and> \<not> falsy (aq_client_id ex_query')
   \<and> \<not> falsy (aq_redirect_uri ex_query') \<and> \<not> falsy (aq_code_challenge ex_query')
   \<and> aq_code_challenge_method ex_query' = Some ''S256''
   \<and> pendingAuths (snd (authorize ex_config ''state-1'' 100 ex_query ex_stores)) ''state-1''
       = Some \<lparr>pa_clientId = ''client-1'', pa_redirectUri = ''https://client.example/cb'',
               pa_codeChallenge = ''E9Melhoa2OwvFrEMTJguCHaoeK1t8URWbuGJSstw-cM'',
               pa_codeChallengeMethod = ''S256'', pa_clientState = ''xyz'', pa_createdAt = 100\<rparr>
   \<and> dom (pendingAuths (snd (authorize ex_config ''state-1'' 100 ex_query ex_stores)))
       = {''state-1''}
   \<and> fst (authorize ex_config ''state-1'' 100 ex_query ex_stores) =
       Redirect (URL ''https://accounts.google.com/o/oauth2/v2/auth''
         [(''client_id'', ''google-id''),
          (''redirect_uri'', ''https://mcp.example/oauth/callback''),
          (''response_type'', ''code''),
          (''scope'', ''openid email''),
          (''state'', ''state-1''),
          (''access_type'', ''offline''),
          (''prompt'', ''consent'')])
   \<and> fst (authorize ex_config ''state-1'' 200 ex_query' ex_stores)
       = fst (authorize ex_config ''state-1'' 100 ex_query ex_stores)"
proof -
  have q: "aq_response_type ex_query = Some ''code''" "\<not> falsy (aq_client_id ex_query)"
    "\<not> falsy (aq_redirect_uri ex_query)" "\<not> falsy (aq_code_challenge ex_query)"
    "aq_code_challenge_method ex_query = Some ''S256''"
    by (simp_all add: ex_query_def falsy_def)
  have q': "aq_response_type ex_query' = Some ''code''" "\<not> falsy (aq_client_id ex_query')"
    "\<not> falsy (aq_redirect_uri ex_query')" "\<not> falsy (aq_code_challenge ex_query')"
    "aq_code_challenge_method ex_query' = Some ''S256''"
    by (simp_all add: ex_query'_def falsy_def)
  show ?thesis
    using authorize_hides_caller_from_idp
      [OF q q', of ex_config "''state-1''" 100 ex_stores 200 ex_stores]
    by (simp add: authorize_def googleAuthUrl_params ex_query_def ex_query'_def ex_config_def
        ex_stores_def falsy_def)
qed

section \<open>The token endpoint: client checks\<close>

lemma authorization_code_grant_ignores_secret:
  "authorization_code_grant uuid1 uuid2 now now' (b\<lparr>tb_client_secret := secret\<rparr>) s
     = authorization_code_grant uuid1 uuid2 now now' b s"
  by (simp add: authorization_code_grant_def Let_def split: option.split)

lemma refresh_token_grant_ignores_secret:
  "refresh_token_grant uuid1 now' (b\<lparr>tb_client_secret := secret\<rparr>) s
     = refresh_token_grant uuid1 now' b s"
  by (simp add: refresh_token_grant_def Let_def split: option.split)

lemma token_missing_client_id:
  "falsy (tb_client_id b) \<Longrightarrow>
     token uuid1 uuid2 now now' b s
       = (Json 400 [(''error'', JString ''invalid_request''),
                    (''error_description'', JString ''client_id required'')], s)"
  by (simp add: token_def)

lemma token_invalid_client:
  assumes "tb_client_id b = Some cid" and "cid \<noteq> []" and "clients s cid = Some client"
    and "Some (rc_clientSecret client) \<noteq> tb_client_secret b"
  shows "token uuid1 uuid2 now now' b s = (Json 401 [(''error'', JString ''invalid_client'')], s)"
  using assms by (simp add: token_def falsy_def)

text \<open>Past the client checks the handler is the branch of its grant type.\<close>

lemma token_dispatch:
  assumes "tb_client_id b = Some cid" and "cid \<noteq> []"
    and "clients s cid = None \<or> (\<exists>client. clients s cid = Some client
           \<and> Some (rc_clientSecret client) = tb_client_secret b)"
  shows "token uuid1 uuid2 now now' b s =
     (if tb_grant_type b = Some ''authorization_code'' then
        authorization_code_grant uuid1 uuid2 now now' b s
      else if tb_grant_type b = Some ''refresh_token'' then
        refresh_token_grant uuid1 now' b s
      else (Json 400 [(''error'', JString ''unsupported_grant_type'')], s))"
  using assms by (auto simp add: token_def falsy_def)

text \<open>
  On a body that is there: a missing (or empty) \<^verbatim>\<open>client_id\<close> is answered with
  \<^verbatim>\<open>invalid_request\<close>. When \<^verbatim>\<open>client_id\<close> names a registered client and the supplied
  \<^verbatim>\<open>client_secret\<close> is not the stored secret, the answer is status 401 with
  \<^verbatim>\<open>invalid_client\<close> and the stores are unchanged, whatever the grant type. When
  \<^verbatim>\<open>client_id\<close> names no registered client, the handler goes on to the branch of the
  grant type, and its result does not depend on the supplied \<^verbatim>\<open>client_secret\<close>.
\<close>

theorem token_client_validation:
  "(falsy (tb_client_id b) \<longrightarrow>
      oauth_error (fst (token uuid1 uuid2 now now' b s)) = Some ''invalid_request''
      \<and> snd (token uuid1 uuid2 now now' b s) = s)
   \<and> (tb_client_id b = Some cid \<and> cid \<noteq> [] \<and> clients s cid = Some client
        \<and> Some (rc_clientSecret client) \<noteq> tb_client_secret b \<longrightarrow>
      token uuid1 uuid2 now now' b s = (Json 401 [(''error'', JString ''invalid_client'')], s))
   \<and> (tb_client_id b = Some cid \<and> cid \<noteq> [] \<and> clients s cid = None \<longrightarrow>
      token uuid1 uuid2 now now' b s =
        (if tb_grant_type b = Some ''authorization_code'' then
           authorization_code_grant uuid1 uuid2 now now' b s
         else if tb_grant_type b = Some ''refresh_token'' then
           refresh_token_grant uuid1 now' b s
         else (Json 400 [(''error'', JString ''unsupported_grant_type'')], s))
      \<and> token uuid1 uuid2 now now' (b\<lparr>tb_client_secret := secret\<rparr>) s
          = token uuid1 uuid2 now now' b s)"
proof (intro conjI impI)
  assume "falsy (tb_client_id b)"
  then show "oauth_error (fst (token uuid1 uuid2 now now' b s)) = Some ''invalid_request''"
    and "snd (token uuid1 uuid2 now now' b s) = s"
    by (simp_all add: token_missing_client_id)
next
  assume "tb_client_id b = Some cid \<and> cid \<noteq> [] \<and> clients s cid = Some client
        \<and> Some (rc_clientSecret client) \<noteq> tb_client_secret b"
  then show "token uuid1 uuid2 now now' b s = (Json 401 [(''error'', JString ''invalid_client'')], s)"
    by (simp add: token_invalid_client)
next
  assume a: "tb_client_id b = Some cid \<and> cid \<noteq> [] \<and> clients s cid = None"
  then show "token uuid1 uuid2 now now' b s =
        (if tb_grant_type b = Some ''authorization_code'' then
           authorization_code_grant uuid1 uuid2 now now' b s
         else if tb_grant_type b = Some ''refresh_token'' then
           refresh_token_grant uuid1 now' b s
         else (Json 400 [(''error'', JString ''unsupported_grant_type'')], s))"
    by (simp add: token_dispatch)
  from a have "tb_client_id (b\<lparr>tb_client_secret := secret\<rparr>) = Some cid" by simp
  with a show "token uuid1 uuid2 now now' (b\<lparr>tb_client_secret := secret\<rparr>) s
          = token uuid1 uuid2 now now' b s"
    by (simp add: token_dispatch authorization_code_grant_ignores_secret
        refresh_token_grant_ignores_secret)
qed

theorem token_client_validation_witness:
  "falsy (tb_client_id (ex_refresh_body\<lparr>tb_client_id := None\<rparr>))
   \<and> oauth_error (fst (token ''tok-2'' ''ref-2'' 5000 5001 (ex_refresh_body\<lparr>tb_client_id := None\<rparr>)
        ex_stores)) = Some ''invalid_request''
   \<and> clients (ex_stores\<lparr>clients := [''client-1'' \<mapsto> ex_client]\<rparr>) ''client-1'' = Some ex_client
   \<and> Some (rc_clientSecret ex_client) \<noteq> tb_client_secret (ex_refresh_body\<lparr>tb_client_secret := Some ''guess''\<rparr>)
   \<and> token ''tok-2'' ''ref-2'' 5000 5001 (ex_refresh_body\<lparr>tb_client_secret := Some ''guess''\<rparr>)
        (ex_stores\<lparr>clients := [''client-1'' \<mapsto> ex_client]\<rparr>)
       = (Json 401 [(''error'', JString ''invalid_client'')],
          ex_stores\<lparr>clients := [''client-1'' \<mapsto> ex_client]\<rparr>)
   \<and> clients ex_stores ''client-1'' = None
   \<and> token ''tok-2'' ''ref-2'' 5000 5001 (ex_refresh_body\<lparr>tb_client_secret := Some ''guess''\<rparr>)
        ex_stores
       = token ''tok-2'' ''ref-2'' 5000 5001 ex_refresh_body ex_stores
   \<and> status (fst (token ''tok-2'' ''ref-2'' 5000 5001
        (ex_refresh_body\<lparr>tb_client_secret := Some ''guess''\<rparr>) ex_stores)) = 200"
  using
    token_client_validation [where b = "ex_refresh_body\<lparr>tb_client_id := None\<rparr>"
      and s = ex_stores and ?uuid1.0 = "''tok-2''" and ?uuid2.0 = "''ref-2''" and now = 5000
      and now' = 5001]
    token_client_validation [where b = "ex_refresh_body\<lparr>tb_client_secret := Some ''guess''\<rparr>"
      and s = "ex_stores\<lparr>clients := [''client-1'' \<mapsto> ex_client]\<rparr>" and cid = "''client-1''"
      and client = ex_client
      and ?uuid1.0 = "''tok-2''" and ?uuid2.0 = "''ref-2''" and now = 5000 and now' = 5001]
    token_client_validation [where b = ex_refresh_body and s = ex_stores and cid = "''client-1''"
      and secret = "Some ''guess''"
      and ?uuid1.0 = "''tok-2''" and ?uuid2.0 = "''ref-2''" and now = 5000 and now' = 5001]
  by (simp add: ex_refresh_body_def ex_stores_def ex_client_def ex_token_def falsy_def
      token_def refresh_token_grant_def map_get_def)

text \<open>
  C7. At the token endpoint a missing \<^verbatim>\<open>client_id\<close> is to fail with
  \<^verbatim>\<open>invalid_request\<close>, and the guard of line 284 answers so for every body that is
  there, down to the body with no field at all. On a request whose body no parser read,
  \<^verbatim>\<open>client_id\<close> is missing as well, but the handler does not reach the guard: the
  destructuring of \<^verbatim>\<open>req.body\<close> in line 281 throws, and the answer is status 500 instead
  of \<^verbatim>\<open>invalid_request\<close>.
\<close>

theorem token_request_without_body:
  "token_request uuid1 uuid2 now now' None s = (Inl TypeError, s)
   \<and> token_request uuid1 uuid2 now now' (Some ex_no_fields) s
       = (Inr (Json 400 [(''error'', JString ''invalid_request''),
                         (''error_description'', JString ''client_id required'')]), s)"
  by (simp add: token_request_def token_def falsy_def ex_no_fields_def)

section \<open>The callback\<close>

lemma callback_begin_error:
  "cq_error q = Some e \<Longrightarrow> e \<noteq> [] \<Longrightarrow>
     callback_begin q s = (Inl (Send 400 (''OAuth error: '' @ e)), s)"
  by (simp add: callback_begin_def falsy_def)

lemma callback_begin_found:
  "falsy (cq_error q) \<Longrightarrow> cq_state q = Some st \<Longrightarrow> pendingAuths s st = Some pending \<Longrightarrow>
     callback_begin q s = (Inr pending, s\<lparr>pendingAuths := (pendingAuths s)(st := None)\<rparr>)"
  by (simp add: callback_begin_def map_get_def map_delete_def)

lemma callback_begin_authCodes:
  "authCodes (snd (callback_begin q s)) = authCodes s"
  by (simp add: callback_begin_def split: option.split)

lemma callback_resume_denied:
  "allowedEmails env = Some allowed \<Longrightarrow> email \<notin> set allowed \<Longrightarrow>
     callback_resume env parse (Resolved email) ourCode now pending s
       = (Send 403 ''Access denied'', s)"
  by (simp add: callback_resume_def)

lemma callback_resume_mints:
  assumes "allowedEmails env = None \<or> (\<exists>allowed. allowedEmails env = Some allowed \<and> email \<in> set allowed)"
  shows "snd (callback_resume env parse (Resolved email) ourCode now pending s) =
           s\<lparr>authCodes := (authCodes s)(ourCode \<mapsto>
               \<lparr>ac_code = ourCode,
                ac_clientId = pa_clientId pending,
                ac_redirectUri = pa_redirectUri pending,
                ac_codeChallenge = pa_codeChallenge pending,
                ac_codeChallengeMethod = pa_codeChallengeMethod pending,
                ac_googleEmail = email,
                ac_expiresAt = now + 5 * 60000\<rparr>)\<rparr>"
    and "parse (pa_redirectUri pending) = Some redirectUrl \<Longrightarrow>
         fst (callback_resume env parse (Resolved email) ourCode now pending s) =
           Redirect (if pa_clientState pending \<noteq> [] then
                       url_set ''state'' (pa_clientState pending)
                         (url_set ''code'' ourCode redirectUrl)
                     else url_set ''code'' ourCode redirectUrl)"
  using assms by (auto simp add: callback_resume_def Let_def split: option.split)

text \<open>
  C5. With \<^verbatim>\<open>ALLOWED_EMAILS\<close> set, a callback whose resolved email is not among the
  trimmed, comma-separated entries of the variable is answered with status 403
  (\<^verbatim>\<open>Access denied\<close>) and stores no authorization code: the part of the handler after
  the exchange returns the stores it was given, and the whole handler leaves the code
  store as it was. With \<^verbatim>\<open>ALLOWED_EMAILS\<close> unset, every resolved email is accepted: the
  handler stores an authorization code for it, bound to the pending authorization, and
  the answer is never the 403.
\<close>

theorem allowlist_enforcement:
  "(env = Some v \<and> email \<notin> set (map trim (split_on CHR '','' v)) \<longrightarrow>
      callback_resume env parse (Resolved email) ourCode now pending s
        = (Send 403 ''Access denied'', s)
      \<and> authCodes (snd (callback env parse (Resolved email) ourCode now q s)) = authCodes s
      \<and> (falsy (cq_error q) \<and> map_get (pendingAuths s) (cq_state q) = Some pending \<longrightarrow>
           fst (callback env parse (Resolved email) ourCode now q s) = Send 403 ''Access denied''))
   \<and> (env = None \<longrightarrow>
      authCodes (snd (callback_resume env parse (Resolved email) ourCode now pending s)) ourCode
        = Some \<lparr>ac_code = ourCode,
                ac_clientId = pa_clientId pending,
                ac_redirectUri = pa_redirectUri pending,
                ac_codeChallenge = pa_codeChallenge pending,
                ac_codeChallengeMethod = pa_codeChallengeMethod pending,
                ac_googleEmail = email,
                ac_expiresAt = now + 5 * 60000\<rparr>
      \<and> status (fst (callback_resume env parse (Resolved email) ourCode now pending s)) \<noteq> 403
      \<and> (falsy (cq_error q) \<and> map_get (pendingAuths s) (cq_state q) = Some pending \<longrightarrow>
           authCodes (snd (callback env parse (Resolved email) ourCode now q s)) ourCode
             = Some \<lparr>ac_code = ourCode,
                ac_clientId = pa_clientId pending,
                ac_redirectUri = pa_redirectUri pending,
                ac_codeChallenge = pa_codeChallenge pending,
                ac_codeChallengeMethod = pa_codeChallengeMethod pending,
                ac_googleEmail = email,
                ac_expiresAt = now + 5 * 60000\<rparr>))"
proof (intro conjI impI)
  assume a: "env = Some v \<and> email \<notin> set (map trim (split_on CHR '','' v))"
  then have al: "allowedEmails env = Some (map trim (split_on CHR '','' v))"
    by (simp add: allowedEmails_def)
  from a show denied: "callback_resume env parse (Resolved email) ourCode now pending s
        = (Send 403 ''Access denied'', s)"
    by (intro callback_resume_denied [OF al]) simp
  from a have den: "callback_resume env parse (Resolved email) ourCode now p s'
        = (Send 403 ''Access denied'', s')" for p s'
    by (intro callback_resume_denied [OF al]) simp
  show "authCodes (snd (callback env parse (Resolved email) ourCode now q s)) = authCodes s"
    using callback_begin_authCodes [of q s]
    by (cases "callback_begin q s") (auto simp add: callback_def den split: sum.split)
  assume "falsy (cq_error q) \<and> map_get (pendingAuths s) (cq_state q) = Some pending"
  then show "fst (callback env parse (Resolved email) ourCode now q s) = Send 403 ''Access denied''"
    by (simp add: callback_def callback_begin_def den)
next
  assume e: "env = None"
  then have al: "allowedEmails env = None"
    by (simp add: allowedEmails_def)
  show "authCodes (snd (callback_resume env parse (Resolved email) ourCode now pending s)) ourCode
        = Some \<lparr>ac_code = ourCode,
                ac_clientId = pa_clientId pending,
                ac_redirectUri = pa_redirectUri pending,
                ac_codeChallenge = pa_codeChallenge pending,
                ac_codeChallengeMethod = pa_codeChallengeMethod pending,
                ac_googleEmail = email,
                ac_expiresAt = now + 5 * 60000\<rparr>"
    using al by (simp add: callback_resume_mints(1))
  show "status (fst (callback_resume env parse (Resolved email) ourCode now pending s)) \<noteq> 403"
    using al by (simp add: callback_resume_def Let_def split: option.split)
  assume "falsy (cq_error q) \<and> map_get (pendingAuths s) (cq_state q) = Some pending"
  then show "authCodes (snd (callback env parse (Resolved email) ourCode now q s)) ourCode
             = Some \<lparr>ac_code = ourCode,
                ac_clientId = pa_clientId pending,
                ac_redirectUri = pa_redirectUri pending,
                ac_codeChallenge = pa_codeChallenge pending,
                ac_codeChallengeMethod = pa_codeChallengeMethod pending,
                ac_googleEmail = email,
                ac_expiresAt = now + 5 * 60000\<rparr>"
    using al by (simp add: callback_def callback_begin_def callback_resume_mints(1))
qed

theorem allowlist_enforcement_witness:
  "''b@x.com'' \<notin> set (map trim (split_on CHR '','' ''a@x.com''))
   \<and> falsy (cq_error ex_callback)
   \<and> map_get (pendingAuths ex_pending_stores) (cq_state ex_callback) = Some ex_pending
   \<and> callback (Some ''a@x.com'') ex_parse (Resolved ''b@x.com'') ''code-1'' 200 ex_callback
        ex_pending_stores
       = (Send 403 ''Access denied'', ex_stores)
   \<and> authCodes (snd (callback (Some ''a@x.com'') ex_parse (Resolved ''b@x.com'') ''code-1'' 200
        ex_callback ex_pending_stores)) = Map.empty
   \<and> callback None ex_parse (Resolved ''b@x.com'') ''code-1'' 200 ex_callback ex_pending_stores
       = (Redirect (URL ''https://client.example/cb'' [(''code'', ''code-1''), (''state'', ''xyz'')]),
          ex_stores\<lparr>authCodes := [''code-1'' \<mapsto>
             \<lparr>ac_code = ''code-1'', ac_clientId = ''client-1'',
              ac_redirectUri = ''https://client.example/cb'',
              ac_codeChallenge = ''E9Melhoa2OwvFrEMTJguCHaoeK1t8URWbuGJSstw-cM'',
              ac_codeChallengeMethod = ''S256'', ac_googleEmail = ''b@x.com'',
              ac_expiresAt = 300200\<rparr>]\<rparr>)"
proof -
  have tr: "trim ''a@x.com'' = ''a@x.com''"
    by (simp add: trim_def strip_leading.simps js_whitespace_def)
  have al: "allowedEmails (Some ''a@x.com'') = Some [''a@x.com'']"
    by (simp add: allowedEmails_def tr)
  have notin: "''b@x.com'' \<notin> set (map trim (split_on CHR '','' ''a@x.com''))"
    by (simp add: tr)
  have pre: "falsy (cq_error ex_callback)"
    "map_get (pendingAuths ex_pending_stores) (cq_state ex_callback) = Some ex_pending"
    by (simp_all add: ex_callback_def ex_pending_stores_def falsy_def map_get_def)
  have started: "callback_begin ex_callback ex_pending_stores = (Inr ex_pending, ex_stores)"
    by (simp add: callback_begin_def ex_callback_def ex_pending_stores_def ex_stores_def
        falsy_def map_get_def map_delete_def)
  have denied: "callback (Some ''a@x.com'') ex_parse (Resolved ''b@x.com'') ''code-1'' 200
      ex_callback ex_pending_stores = (Send 403 ''Access denied'', ex_stores)"
    by (simp add: callback_def started callback_resume_def al)
  show ?thesis
    using
      allowlist_enforcement [where env = "Some ''a@x.com''" and v = "''a@x.com''"
        and email = "''b@x.com''" and q = ex_callback and s = ex_pending_stores
        and pending = ex_pending and parse = ex_parse and ourCode = "''code-1''" and now = 200]
      allowlist_enforcement [where env = None and email = "''b@x.com''" and q = ex_callback
        and s = ex_pending_stores and pending = ex_pending and parse = ex_parse
        and ourCode = "''code-1''" and now = 200]
    by (simp add: tr pre denied callback_def started callback_resume_def allowedEmails_def
        ex_pending_def ex_parse_def url_set_def ex_stores_def)
qed


lemma sweep_keeps_pending:
  "pendingAuths s st = Some pending \<Longrightarrow> \<not> t - pa_createdAt pending > 10 * 60000 \<Longrightarrow>
     pendingAuths (sweep t s) st = Some pending"
  by (simp add: sweep_def)

text \<open>
  C10. A callback with a non-empty \<^verbatim>\<open>error\<close> parameter is answered with status 400 and
  leaves the stores unchanged, so the pending authorization under the supplied
  \<^verbatim>\<open>state\<close> is still there. It stays there through any run of the cleanup timer up to
  10 minutes after its creation. A later callback with the same \<^verbatim>\<open>state\<close> and no
  \<^verbatim>\<open>error\<close> succeeds when the exchange resolves an email that the allowlist accepts
  and the client's redirect URI parses: it consumes the pending authorization, stores
  an authorization code and redirects to the client.
\<close>

theorem callback_error_keeps_pending:
  assumes "cq_error q = Some e" and "e \<noteq> []"
    and "cq_state q = Some st" and "pendingAuths s st = Some pending"
  shows "callback env parse outcome ourCode now q s = (Send 400 (''OAuth error: '' @ e), s)
         \<and> pendingAuths (snd (callback env parse outcome ourCode now q s)) st = Some pending
         \<and> (\<not> t - pa_createdAt pending > 10 * 60000 \<longrightarrow>
              pendingAuths (sweep t (snd (callback env parse outcome ourCode now q s))) st
                = Some pending)
         \<and> (allowedEmails env' = None \<or> email \<in> set (the (allowedEmails env')) \<longrightarrow>
              parse' (pa_redirectUri pending) = Some redirectUrl \<longrightarrow>
              callback env' parse' (Resolved email) ourCode' now' (q\<lparr>cq_error := None\<rparr>)
                  (snd (callback env parse outcome ourCode now q s))
                = (Redirect (if pa_clientState pending \<noteq> [] then
                               url_set ''state'' (pa_clientState pending)
                                 (url_set ''code'' ourCode' redirectUrl)
                             else url_set ''code'' ourCode' redirectUrl),
                   s\<lparr>pendingAuths := (pendingAuths s)(st := None),
                     authCodes := (authCodes s)(ourCode' \<mapsto>
                       \<lparr>ac_code = ourCode',
                        ac_clientId = pa_clientId pending,
                        ac_redirectUri = pa_redirectUri pending,
                        ac_codeChallenge = pa_codeChallenge pending,
                        ac_codeChallengeMethod = pa_codeChallengeMethod pending,
                        ac_googleEmail = email,
                        ac_expiresAt = now' + 5 * 60000\<rparr>)\<rparr>))"
proof -
  have first: "callback env parse outcome ourCode now q s = (Send 400 (''OAuth error: '' @ e), s)"
    by (simp add: callback_def callback_begin_error [OF assms(1,2)])
  have second: "callback_begin (q\<lparr>cq_error := None\<rparr>) s
      = (Inr pending, s\<lparr>pendingAuths := (pendingAuths s)(st := None)\<rparr>)"
    using assms(3,4) by (intro callback_begin_found) (simp_all add: falsy_def)
  have later: "callback env' parse' (Resolved email) ourCode' now' (q\<lparr>cq_error := None\<rparr>) s
                = (Redirect (if pa_clientState pending \<noteq> [] then
                               url_set ''state'' (pa_clientState pending)
                                 (url_set ''code'' ourCode' redirectUrl)
                             else url_set ''code'' ourCode' redirectUrl),
                   s\<lparr>pendingAuths := (pendingAuths s)(st := None),
                     authCodes := (authCodes s)(ourCode' \<mapsto>
                       \<lparr>ac_code = ourCode',
                        ac_clientId = pa_clientId pending,
                        ac_redirectUri = pa_redirectUri pending,
                        ac_codeChallenge = pa_codeChallenge pending,
                        ac_codeChallengeMethod = pa_codeChallengeMethod pending,
                        ac_googleEmail = email,
                        ac_expiresAt = now' + 5 * 60000\<rparr>)\<rparr>)"
    if "allowedEmails env' = None \<or> email \<in> set (the (allowedEmails env'))"
      and "parse' (pa_redirectUri pending) = Some redirectUrl"
    using that by (auto simp add: callback_def second callback_resume_def Let_def)
  show ?thesis
    using assms(4) later by (simp add: first sweep_keeps_pending)
qed

theorem callback_error_keeps_pending_witness:
  "cq_error (ex_callback\<lparr>cq_error := Some ''access_denied''\<rparr>) = Some ''access_denied''
   \<and> ''access_denied'' \<noteq> []
   \<and> cq_state (ex_callback\<lparr>cq_error := Some ''access_denied''\<rparr>) = Some ''state-1''
   \<and> pendingAuths ex_pending_stores ''state-1'' = Some ex_pending
   \<and> callback None ex_parse Threw ''code-0'' 200
        (ex_callback\<lparr>cq_error := Some ''access_denied''\<rparr>) ex_pending_stores
       = (Send 400 ''OAuth error: access_denied'', ex_pending_stores)
   \<and> \<not> 600100 - pa_createdAt ex_pending > 10 * 60000
   \<and> pendingAuths (sweep 600100 (snd (callback None ex_parse Threw ''code-0'' 200
        (ex_callback\<lparr>cq_error := Some ''access_denied''\<rparr>) ex_pending_stores))) ''state-1''
       = Some ex_pending
   \<and> allowedEmails None = None
   \<and> ex_parse (pa_redirectUri ex_pending) = Some (URL ''https://client.example/cb'' [])
   \<and> callback None ex_parse (Resolved ''a@x.com'') ''code-1'' 300 ex_callback
        (snd (callback None ex_parse Threw ''code-0'' 200
          (ex_callback\<lparr>cq_error := Some ''access_denied''\<rparr>) ex_pending_stores))
       = (Redirect (URL ''https://client.example/cb'' [(''code'', ''code-1''), (''state'', ''xyz'')]),
          ex_stores\<lparr>authCodes := [''code-1'' \<mapsto>
             \<lparr>ac_code = ''code-1'', ac_clientId = ''client-1'',
              ac_redirectUri = ''https://client.example/cb'',
              ac_codeChallenge = ''E9Melhoa2OwvFrEMTJguCHaoeK1t8URWbuGJSstw-cM'',
              ac_codeChallengeMethod = ''S256'', ac_googleEmail = ''a@x.com'',
              ac_expiresAt = 300300\<rparr>]\<rparr>)"
proof -
  have pre: "cq_error (ex_callback\<lparr>cq_error := Some ''access_denied''\<rparr>) = Some ''access_denied''"
    "''access_denied'' \<noteq> []"
    "cq_state (ex_callback\<lparr>cq_error := Some ''access_denied''\<rparr>) = Some ''state-1''"
    "pendingAuths ex_pending_stores ''state-1'' = Some ex_pending"
    by (simp_all add: ex_callback_def ex_pending_stores_def)
  have same: "(ex_callback\<lparr>cq_error := Some ''access_denied''\<rparr>)\<lparr>cq_error := None\<rparr> = ex_callback"
    by (simp add: ex_callback_def)
  show ?thesis
    using callback_error_keeps_pending [OF pre, where env = None and parse = ex_parse
        and outcome = Threw and ourCode = "''code-0''" and now = 200 and t = 600100
        and env' = None and email = "''a@x.com''" and parse' = ex_parse
        and redirectUrl = "URL ''https://client.example/cb'' []" and ourCode' = "''code-1''"
        and now' = 300]
    by (simp add: same callback_def callback_begin_def callback_resume_def sweep_def
        allowedEmails_def falsy_def map_get_def map_delete_def url_set_def
        ex_callback_def ex_parse_def ex_pending_def ex_pending_stores_def ex_stores_def)
qed

section \<open>The token endpoint: the refresh grant\<close>


lemma refresh_token_grant_accepts:
  assumes "map_get (refreshTokens s) (tb_refresh_token b) = Some stored"
    and "tb_client_id b = Some (st_clientId stored)"
  shows "refresh_token_grant accessToken now' b s =
           (Json 200 [(''access_token'', JString accessToken),
                      (''token_type'', JString ''Bearer''),
                      (''expires_in'', JNumber 3600)],
            s\<lparr>accessTokens := (accessTokens s)(accessToken \<mapsto>
                \<lparr>st_clientId = st_clientId stored,
                 st_googleEmail = st_googleEmail stored,
                 st_expiresAt = now' + 3600 * 1000\<rparr>)\<rparr>)"
  using assms by (simp add: refresh_token_grant_def)





section \<open>Two values of \<^verbatim>\<open>sha256\<close>\<close>

text \<open>
  The hash of the empty string, and the example of RFC 7636 (appendix B): the code
  verifier and its S256 code challenge.
\<close>

lemma sha256_empty: "sha256 [] = ''47DEQpj8HBSa-_TImW-5JCeuQeRkm5NMpJWZG3hSuFU''"
  by code_simp

lemma sha256_rfc7636:
  "sha256 ''dBjftJeZ4CVP-mB92K27uhbUJU1p1r_wW1gFWFOEjXk''
     = ''E9Melhoa2OwvFrEMTJguCHaoeK1t8URWbuGJSstw-cM''"
  by code_simp

section \<open>The token endpoint: the authorization code grant\<close>

lemma token_clients: "clients (snd (token uuid1 uuid2 now now' b s)) = clients s"
  by (simp add: token_def authorization_code_grant_def refresh_token_grant_def Let_def
      split: option.split)

lemma authorization_code_grant_absent:
  "map_get (authCodes s) (tb_code b) = None \<Longrightarrow>
     authorization_code_grant accessToken refreshTok now now' b s =
       (Json 400 [(''error'', JString ''invalid_grant''),
                  (''error_description'', JString ''Invalid or expired code'')], s)"
  by (simp add: authorization_code_grant_def)

lemma authorization_code_grant_deletes:
  "tb_code b = Some c \<Longrightarrow> authCodes s c = Some authCode \<Longrightarrow>
     authCodes (snd (authorization_code_grant accessToken refreshTok now now' b s))
       = (authCodes s)(c := None)"
  by (simp add: authorization_code_grant_def map_get_def map_delete_def Let_def)

lemma authorization_code_grant_result:
  assumes "tb_code b = Some c" and "authCodes s c = Some authCode"
    and "\<not> now > ac_expiresAt authCode"
    and "Some (ac_clientId authCode) = tb_client_id b"
    and "Some (ac_redirectUri authCode) = tb_redirect_uri b"
  shows "authorization_code_grant accessToken refreshTok now now' b s =
     (if falsy (tb_code_verifier b)
         \<or> sha256 (the (tb_code_verifier b)) \<noteq> ac_codeChallenge authCode then
        (Json 400 [(''error'', JString ''invalid_grant''),
                   (''error_description'', JString ''PKCE verification failed'')],
         s\<lparr>authCodes := (authCodes s)(c := None)\<rparr>)
      else
        (Json 200 [(''access_token'', JString accessToken),
                   (''token_type'', JString ''Bearer''),
                   (''expires_in'', JNumber 3600),
                   (''refresh_token'', JString refreshTok)],
         s\<lparr>authCodes := (authCodes s)(c := None),
           accessTokens := (accessTokens s)(accessToken \<mapsto>
             \<lparr>st_clientId = ac_clientId authCode,
              st_googleEmail = ac_googleEmail authCode,
              st_expiresAt = now' + 3600 * 1000\<rparr>),
           refreshTokens := (refreshTokens s)(refreshTok \<mapsto>
             \<lparr>st_clientId = ac_clientId authCode,
              st_googleEmail = ac_googleEmail authCode,
              st_expiresAt = 0\<rparr>)\<rparr>))"
  using assms
  by (auto simp add: authorization_code_grant_def map_get_def map_delete_def Let_def
      dest: sym)

text \<open>
  C1 (as amended). Take a call of the token endpoint with
  \<^verbatim>\<open>grant_type=authorization_code\<close> that passes the client checks and whose code is in
  the code store. Whatever the outcome of the expiry, client/redirect and PKCE checks,
  the call removes that code from the store (and no other). After it, no call with
  \<^verbatim>\<open>grant_type=authorization_code\<close> and the same code succeeds, whatever its other
  parameters, and none changes the stores: it fails with \<^verbatim>\<open>invalid_grant\<close> when it
  passes the client checks, with \<^verbatim>\<open>invalid_request\<close> when its \<^verbatim>\<open>client_id\<close> is missing,
  and with \<^verbatim>\<open>invalid_client\<close> when the secret of a registered client is wrong.
\<close>

theorem authorization_code_single_use:
  assumes "tb_grant_type b = Some ''authorization_code''" and "tb_code b = Some c"
    and "authCodes s c = Some authCode"
    and "tb_client_id b = Some cid" and "cid \<noteq> []"
    and "clients s cid = None
         \<or> (\<exists>client. clients s cid = Some client
              \<and> Some (rc_clientSecret client) = tb_client_secret b)"
    and "tb_grant_type b2 = Some ''authorization_code''" and "tb_code b2 = Some c"
  shows "authCodes (snd (token uuid1 uuid2 now now' b s)) = (authCodes s)(c := None)
       \<and> status (fst (token uuid3 uuid4 later later' b2 (snd (token uuid1 uuid2 now now' b s))))
           \<noteq> 200
       \<and> snd (token uuid3 uuid4 later later' b2 (snd (token uuid1 uuid2 now now' b s)))
           = snd (token uuid1 uuid2 now now' b s)
       \<and> (tb_client_id b2 = Some cid2 \<and> cid2 \<noteq> []
            \<and> (clients s cid2 = None
                 \<or> (\<exists>client. clients s cid2 = Some client
                      \<and> Some (rc_clientSecret client) = tb_client_secret b2)) \<longrightarrow>
           fst (token uuid3 uuid4 later later' b2 (snd (token uuid1 uuid2 now now' b s)))
             = Json 400 [(''error'', JString ''invalid_grant''),
                         (''error_description'', JString ''Invalid or expired code'')])
       \<and> (falsy (tb_client_id b2) \<longrightarrow>
           oauth_error (fst (token uuid3 uuid4 later later' b2
              (snd (token uuid1 uuid2 now now' b s)))) = Some ''invalid_request'')
       \<and> (tb_client_id b2 = Some cid2 \<and> cid2 \<noteq> [] \<and> clients s cid2 = Some client2
            \<and> Some (rc_clientSecret client2) \<noteq> tb_client_secret b2 \<longrightarrow>
           oauth_error (fst (token uuid3 uuid4 later later' b2
              (snd (token uuid1 uuid2 now now' b s)))) = Some ''invalid_client'')"
proof -
  define s' where "s' = snd (token uuid1 uuid2 now now' b s)"
  have "token uuid1 uuid2 now now' b s = authorization_code_grant uuid1 uuid2 now now' b s"
    using assms(1,4,5,6) by (simp add: token_dispatch [where cid = cid])
  then have deleted: "authCodes s' = (authCodes s)(c := None)"
    using assms(2,3) by (simp add: s'_def authorization_code_grant_deletes)
  have cl: "clients s' = clients s"
    by (simp add: s'_def token_clients)
  have absent: "map_get (authCodes s') (tb_code b2) = None"
    using assms(8) by (simp add: deleted map_get_def)
  have second: "token uuid3 uuid4 later later' b2 s' =
      (if falsy (tb_client_id b2) then
         (Json 400 [(''error'', JString ''invalid_request''),
                    (''error_description'', JString ''client_id required'')], s')
       else if clients s (the (tb_client_id b2)) \<noteq> None
               \<and> Some (rc_clientSecret (the (clients s (the (tb_client_id b2)))))
                   \<noteq> tb_client_secret b2 then
         (Json 401 [(''error'', JString ''invalid_client'')], s')
       else
         (Json 400 [(''error'', JString ''invalid_grant''),
                    (''error_description'', JString ''Invalid or expired code'')], s'))"
    using assms(7) by (simp add: token_def cl authorization_code_grant_absent [OF absent])
  show ?thesis
    unfolding s'_def [symmetric]
    by (auto simp add: deleted second falsy_def)
qed


theorem authorization_code_single_use_witness:
  "tb_grant_type ex_code_body = Some ''authorization_code'' \<and> tb_code ex_code_body = Some ''code-1''
   \<and> authCodes ex_code_stores ''code-1'' = Some ex_code
   \<and> tb_client_id ex_code_body = Some ''client-1'' \<and> ''client-1'' \<noteq> []
   \<and> clients ex_code_stores ''client-1'' = None
   \<and> status (fst (token ''tok-2'' ''ref-2'' 5000 5001 ex_code_body ex_code_stores)) = 200
   \<and> authCodes (snd (token ''tok-2'' ''ref-2'' 5000 5001 ex_code_body ex_code_stores)) = Map.empty
   \<and> token ''tok-3'' ''ref-3'' 6000 6001 ex_code_body
        (snd (token ''tok-2'' ''ref-2'' 5000 5001 ex_code_body ex_code_stores))
       = (Json 400 [(''error'', JString ''invalid_grant''),
                    (''error_description'', JString ''Invalid or expired code'')],
          snd (token ''tok-2'' ''ref-2'' 5000 5001 ex_code_body ex_code_stores))
   \<and> falsy (tb_client_id (ex_code_body\<lparr>tb_client_id := None\<rparr>))
   \<and> oauth_error (fst (token ''tok-3'' ''ref-3'' 6000 6001 (ex_code_body\<lparr>tb_client_id := None\<rparr>)
        (snd (token ''tok-2'' ''ref-2'' 5000 5001 ex_code_body ex_code_stores))))
       = Some ''invalid_request''
   \<and> clients (ex_code_stores\<lparr>clients := [''client-1'' \<mapsto> ex_client]\<rparr>) ''client-1''
       = Some ex_client
   \<and> Some (rc_clientSecret ex_client) \<noteq> tb_client_secret ex_code_body
   \<and> oauth_error (fst (token ''tok-3'' ''ref-3'' 6000 6001 ex_code_body
        (snd (token ''tok-2'' ''ref-2'' 5000 5001 (ex_code_body\<lparr>tb_client_secret := Some ''secret-1''\<rparr>)
           (ex_code_stores\<lparr>clients := [''client-1'' \<mapsto> ex_client]\<rparr>)))))
       = Some ''invalid_client''"
proof -
  have pre: "tb_grant_type ex_code_body = Some ''authorization_code''"
    "tb_code ex_code_body = Some ''code-1''"
    "authCodes ex_code_stores ''code-1'' = Some ex_code"
    "tb_client_id ex_code_body = Some ''client-1''" "''client-1'' \<noteq> []"
    "clients ex_code_stores ''client-1'' = None
       \<or> (\<exists>client. clients ex_code_stores ''client-1'' = Some client
            \<and> Some (rc_clientSecret client) = tb_client_secret ex_code_body)"
    by (simp_all add: ex_code_body_def ex_code_stores_def ex_stores_def)
  have pre2: "tb_grant_type (ex_code_body\<lparr>tb_client_id := None\<rparr>) = Some ''authorization_code''"
    "tb_code (ex_code_body\<lparr>tb_client_id := None\<rparr>) = Some ''code-1''"
    by (simp_all add: ex_code_body_def)
  have pre3: "tb_grant_type (ex_code_body\<lparr>tb_client_secret := Some ''secret-1''\<rparr>)
        = Some ''authorization_code''"
    "tb_code (ex_code_body\<lparr>tb_client_secret := Some ''secret-1''\<rparr>) = Some ''code-1''"
    "authCodes (ex_code_stores\<lparr>clients := [''client-1'' \<mapsto> ex_client]\<rparr>) ''code-1''
        = Some ex_code"
    "tb_client_id (ex_code_body\<lparr>tb_client_secret := Some ''secret-1''\<rparr>) = Some ''client-1''"
    "''client-1'' \<noteq> []"
    "clients (ex_code_stores\<lparr>clients := [''client-1'' \<mapsto> ex_client]\<rparr>) ''client-1'' = None
       \<or> (\<exists>client. clients (ex_code_stores\<lparr>clients := [''client-1'' \<mapsto> ex_client]\<rparr>)
              ''client-1'' = Some client
            \<and> Some (rc_clientSecret client)
                = tb_client_secret (ex_code_body\<lparr>tb_client_secret := Some ''secret-1''\<rparr>))"
    by (simp_all add: ex_code_body_def ex_code_stores_def ex_stores_def ex_client_def)
  show ?thesis
    using
      authorization_code_single_use [OF pre pre(1,2), where ?cid2.0 = "''client-1''"
        and ?uuid1.0 = "''tok-2''" and ?uuid2.0 = "''ref-2''" and now = 5000 and now' = 5001
        and ?uuid3.0 = "''tok-3''" and ?uuid4.0 = "''ref-3''" and later = 6000 and later' = 6001]
      authorization_code_single_use [OF pre pre2,
        where ?uuid1.0 = "''tok-2''" and ?uuid2.0 = "''ref-2''" and now = 5000 and now' = 5001
        and ?uuid3.0 = "''tok-3''" and ?uuid4.0 = "''ref-3''" and later = 6000 and later' = 6001]
      authorization_code_single_use [OF pre3 pre(1,2), where ?cid2.0 = "''client-1''"
        and ?client2.0 = ex_client
        and ?uuid1.0 = "''tok-2''" and ?uuid2.0 = "''ref-2''" and now = 5000 and now' = 5001
        and ?uuid3.0 = "''tok-3''" and ?uuid4.0 = "''ref-3''" and later = 6000 and later' = 6001]
    by (simp add: token_def authorization_code_grant_def falsy_def map_get_def map_delete_def
        sha256_rfc7636 ex_code_body_def ex_code_stores_def ex_code_def ex_stores_def
        ex_client_def)
qed

text \<open>
  The claim C1 as stated (a second attempt with any parameters fails with
  \<^verbatim>\<open>invalid_grant\<close>) fails on a second attempt without \<^verbatim>\<open>client_id\<close>: the answer is
  \<^verbatim>\<open>invalid_request\<close>.
\<close>

theorem second_redemption_without_client_id_counterexample:
  "tb_grant_type ex_code_body = Some ''authorization_code''
   \<and> authCodes ex_code_stores (the (tb_code ex_code_body)) = Some ex_code
   \<and> status (fst (token ''tok-2'' ''ref-2'' 5000 5001 ex_code_body ex_code_stores)) = 200
   \<and> tb_grant_type (ex_code_body\<lparr>tb_client_id := None\<rparr>) = Some ''authorization_code''
   \<and> tb_code (ex_code_body\<lparr>tb_client_id := None\<rparr>) = tb_code ex_code_body
   \<and> fst (token ''tok-3'' ''ref-3'' 6000 6001 (ex_code_body\<lparr>tb_client_id := None\<rparr>)
        (snd (token ''tok-2'' ''ref-2'' 5000 5001 ex_code_body ex_code_stores)))
       = Json 400 [(''error'', JString ''invalid_request''),
                   (''error_description'', JString ''client_id required'')]
   \<and> oauth_error (fst (token ''tok-3'' ''ref-3'' 6000 6001 (ex_code_body\<lparr>tb_client_id := None\<rparr>)
        (snd (token ''tok-2'' ''ref-2'' 5000 5001 ex_code_body ex_code_stores))))
       \<noteq> Some ''invalid_grant''"
  by (simp add: token_def authorization_code_grant_def falsy_def map_get_def map_delete_def
      sha256_rfc7636 ex_code_body_def ex_code_stores_def ex_code_def ex_stores_def)


text \<open>
  C2 (as amended). Take an authorization code stored with code challenge \<open>C\<close> and a
  token request for it that passes the client checks, the expiry check and the
  client/redirect check. The request succeeds if and only if it carries a non-empty
  \<^verbatim>\<open>code_verifier\<close> \<open>v\<close> with \<open>sha256 v = C\<close>; otherwise (no verifier, the empty
  verifier, or a verifier with another hash) it fails with \<^verbatim>\<open>invalid_grant\<close>. So a code
  stored with the challenge \<open>sha256 v\<close> of a non-empty \<open>v\<close> is redeemed by the verifier
  \<open>v\<close>.
\<close>

theorem pkce_verification:
  assumes "tb_grant_type b = Some ''authorization_code''" and "tb_code b = Some c"
    and "authCodes s c = Some authCode"
    and "tb_client_id b = Some cid" and "cid \<noteq> []"
    and "clients s cid = None
         \<or> (\<exists>client. clients s cid = Some client
              \<and> Some (rc_clientSecret client) = tb_client_secret b)"
    and "\<not> now > ac_expiresAt authCode"
    and "ac_clientId authCode = cid"
    and "Some (ac_redirectUri authCode) = tb_redirect_uri b"
  shows "(status (fst (token uuid1 uuid2 now now' b s)) = 200) =
           (\<exists>v. tb_code_verifier b = Some v \<and> v \<noteq> [] \<and> sha256 v = ac_codeChallenge authCode)
       \<and> ((\<exists>v. tb_code_verifier b = Some v \<and> v \<noteq> [] \<and> sha256 v = ac_codeChallenge authCode)
            \<or> fst (token uuid1 uuid2 now now' b s)
                = Json 400 [(''error'', JString ''invalid_grant''),
                            (''error_description'', JString ''PKCE verification failed'')])
       \<and> (tb_code_verifier b = Some v \<and> v \<noteq> [] \<and> ac_codeChallenge authCode = sha256 v \<longrightarrow>
            token uuid1 uuid2 now now' b s =
              (Json 200 [(''access_token'', JString uuid1),
                         (''token_type'', JString ''Bearer''),
                         (''expires_in'', JNumber 3600),
                         (''refresh_token'', JString uuid2)],
               s\<lparr>authCodes := (authCodes s)(c := None),
                 accessTokens := (accessTokens s)(uuid1 \<mapsto>
                   \<lparr>st_clientId = cid,
                    st_googleEmail = ac_googleEmail authCode,
                    st_expiresAt = now' + 3600 * 1000\<rparr>),
                 refreshTokens := (refreshTokens s)(uuid2 \<mapsto>
                   \<lparr>st_clientId = cid,
                    st_googleEmail = ac_googleEmail authCode,
                    st_expiresAt = 0\<rparr>)\<rparr>))"
proof -
  have "token uuid1 uuid2 now now' b s = authorization_code_grant uuid1 uuid2 now now' b s"
    using assms(1,4,5,6) by (simp add: token_dispatch [where cid = cid])
  moreover have "Some (ac_clientId authCode) = tb_client_id b"
    using assms(4,8) by simp
  ultimately have run: "token uuid1 uuid2 now now' b s =
     (if falsy (tb_code_verifier b)
         \<or> sha256 (the (tb_code_verifier b)) \<noteq> ac_codeChallenge authCode then
        (Json 400 [(''error'', JString ''invalid_grant''),
                   (''error_description'', JString ''PKCE verification failed'')],
         s\<lparr>authCodes := (authCodes s)(c := None)\<rparr>)
      else
        (Json 200 [(''access_token'', JString uuid1),
                   (''token_type'', JString ''Bearer''),
                   (''expires_in'', JNumber 3600),
                   (''refresh_token'', JString uuid2)],
         s\<lparr>authCodes := (authCodes s)(c := None),
           accessTokens := (accessTokens s)(uuid1 \<mapsto>
             \<lparr>st_clientId = ac_clientId authCode,
              st_googleEmail = ac_googleEmail authCode,
              st_expiresAt = now' + 3600 * 1000\<rparr>),
           refreshTokens := (refreshTokens s)(uuid2 \<mapsto>
             \<lparr>st_clientId = ac_clientId authCode,
              st_googleEmail = ac_googleEmail authCode,
              st_expiresAt = 0\<rparr>)\<rparr>))"
    using assms(2,3,7,9) by (simp add: authorization_code_grant_result)
  have ok: "(\<not> (falsy (tb_code_verifier b)
              \<or> sha256 (the (tb_code_verifier b)) \<noteq> ac_codeChallenge authCode)) =
        (\<exists>v. tb_code_verifier b = Some v \<and> v \<noteq> [] \<and> sha256 v = ac_codeChallenge authCode)"
    by (cases "tb_code_verifier b") (auto simp add: falsy_def)
  show ?thesis
  proof (cases "\<exists>v. tb_code_verifier b = Some v \<and> v \<noteq> [] \<and> sha256 v = ac_codeChallenge authCode")
    case True
    with ok have "\<not> (falsy (tb_code_verifier b)
              \<or> sha256 (the (tb_code_verifier b)) \<noteq> ac_codeChallenge authCode)"
      by simp
    with True assms(8) show ?thesis
      by (auto simp add: run falsy_def)
  next
    case False
    with ok have "falsy (tb_code_verifier b)
              \<or> sha256 (the (tb_code_verifier b)) \<noteq> ac_codeChallenge authCode"
      by simp
    with False show ?thesis
      by (auto simp add: run)
  qed
qed

theorem pkce_verification_witness:
  "tb_grant_type ex_code_body = Some ''authorization_code'' \<and> tb_code ex_code_body = Some ''code-1''
   \<and> authCodes ex_code_stores ''code-1'' = Some ex_code
   \<and> tb_client_id ex_code_body = Some ''client-1'' \<and> ''client-1'' \<noteq> []
   \<and> clients ex_code_stores ''client-1'' = None
   \<and> \<not> 5000 > ac_expiresAt ex_code \<and> ac_clientId ex_code = ''client-1''
   \<and> Some (ac_redirectUri ex_code) = tb_redirect_uri ex_code_body
   \<and> tb_code_verifier ex_code_body = Some ''dBjftJeZ4CVP-mB92K27uhbUJU1p1r_wW1gFWFOEjXk''
   \<and> ac_codeChallenge ex_code = sha256 ''dBjftJeZ4CVP-mB92K27uhbUJU1p1r_wW1gFWFOEjXk''
   \<and> token ''tok-2'' ''ref-2'' 5000 5001 ex_code_body ex_code_stores =
        (Json 200 [(''access_token'', JString ''tok-2''), (''token_type'', JString ''Bearer''),
                   (''expires_in'', JNumber 3600), (''refresh_token'', JString ''ref-2'')],
         ex_stores\<lparr>accessTokens := (accessTokens ex_stores)(''tok-2'' \<mapsto>
              \<lparr>st_clientId = ''client-1'', st_googleEmail = ''a@x.com'',
               st_expiresAt = 3605001\<rparr>),
            refreshTokens := (refreshTokens ex_stores)(''ref-2'' \<mapsto>
              \<lparr>st_clientId = ''client-1'', st_googleEmail = ''a@x.com'', st_expiresAt = 0\<rparr>)\<rparr>)
   \<and> fst (token ''tok-2'' ''ref-2'' 5000 5001 (ex_code_body\<lparr>tb_code_verifier := None\<rparr>)
        ex_code_stores)
       = Json 400 [(''error'', JString ''invalid_grant''),
                   (''error_description'', JString ''PKCE verification failed'')]"
proof -
  have pre: "tb_grant_type ex_code_body = Some ''authorization_code''"
    "tb_code ex_code_body = Some ''code-1''"
    "authCodes ex_code_stores ''code-1'' = Some ex_code"
    "tb_client_id ex_code_body = Some ''client-1''" "''client-1'' \<noteq> []"
    "clients ex_code_stores ''client-1'' = None
       \<or> (\<exists>client. clients ex_code_stores ''client-1'' = Some client
            \<and> Some (rc_clientSecret client) = tb_client_secret ex_code_body)"
    "\<not> 5000 > ac_expiresAt ex_code" "ac_clientId ex_code = ''client-1''"
    "Some (ac_redirectUri ex_code) = tb_redirect_uri ex_code_body"
    by (simp_all add: ex_code_body_def ex_code_stores_def ex_stores_def ex_code_def)
  have pre': "tb_grant_type (ex_code_body\<lparr>tb_code_verifier := None\<rparr>) = Some ''authorization_code''"
    "tb_code (ex_code_body\<lparr>tb_code_verifier := None\<rparr>) = Some ''code-1''"
    "authCodes ex_code_stores ''code-1'' = Some ex_code"
    "tb_client_id (ex_code_body\<lparr>tb_code_verifier := None\<rparr>) = Some ''client-1''"
    "''client-1'' \<noteq> []"
    "clients ex_code_stores ''client-1'' = None
       \<or> (\<exists>client. clients ex_code_stores ''client-1'' = Some client
            \<and> Some (rc_clientSecret client)
                = tb_client_secret (ex_code_body\<lparr>tb_code_verifier := None\<rparr>))"
    "\<not> 5000 > ac_expiresAt ex_code" "ac_clientId ex_code = ''client-1''"
    "Some (ac_redirectUri ex_code) = tb_redirect_uri (ex_code_body\<lparr>tb_code_verifier := None\<rparr>)"
    by (simp_all add: ex_code_body_def ex_code_stores_def ex_stores_def ex_code_def)
  show ?thesis
    using
      pkce_verification [OF pre, where v = "''dBjftJeZ4CVP-mB92K27uhbUJU1p1r_wW1gFWFOEjXk''"
        and ?uuid1.0 = "''tok-2''" and ?uuid2.0 = "''ref-2''" and now' = 5001]
      pkce_verification [OF pre', where ?uuid1.0 = "''tok-2''" and ?uuid2.0 = "''ref-2''"
        and now' = 5001]
    by (simp add: token_def authorization_code_grant_def falsy_def map_get_def map_delete_def
        sha256_rfc7636 ex_code_body_def ex_code_stores_def ex_code_def ex_stores_def)
qed

text \<open>
  The claim C2 as stated fails on the empty verifier: a code stored with the challenge
  \<open>sha256 []\<close> is not redeemed by the verifier \<open>[]\<close>, which the handler treats as
  missing.
\<close>

theorem empty_verifier_counterexample:
  "tb_grant_type (ex_code_body\<lparr>tb_code_verifier := Some []\<rparr>) = Some ''authorization_code''
   \<and> authCodes ex_empty_code_stores (the (tb_code (ex_code_body\<lparr>tb_code_verifier := Some []\<rparr>)))
       = Some (ex_code\<lparr>ac_codeChallenge := ''47DEQpj8HBSa-_TImW-5JCeuQeRkm5NMpJWZG3hSuFU''\<rparr>)
   \<and> tb_code_verifier (ex_code_body\<lparr>tb_code_verifier := Some []\<rparr>) = Some []
   \<and> sha256 [] = ''47DEQpj8HBSa-_TImW-5JCeuQeRkm5NMpJWZG3hSuFU''
   \<and> token ''tok-2'' ''ref-2'' 5000 5001 (ex_code_body\<lparr>tb_code_verifier := Some []\<rparr>)
        ex_empty_code_stores
       = (Json 400 [(''error'', JString ''invalid_grant''),
                    (''error_description'', JString ''PKCE verification failed'')],
          ex_stores)"
  by (simp add: token_def authorization_code_grant_def falsy_def map_get_def map_delete_def
      sha256_empty ex_code_body_def ex_empty_code_stores_def ex_code_def ex_stores_def)

section \<open>Token lifetime\<close>

text \<open>
  C3. A redemption of an authorization code that passes every check stores the access
  token it returns with expiry time \<open>now' + 3600 * 1000\<close> milliseconds, \<open>now'\<close> being the
  time of issuance (and returns \<^verbatim>\<open>expires_in\<close> 3600); so does a refresh that passes its
  checks. \<^verbatim>\<open>requireAuth\<close> accepts a stored token presented as \<^verbatim>\<open>Bearer <token>\<close> exactly
  when the current time is not greater than its expiry time. So the issued token is
  accepted 3599 seconds after issuance and refused with the 401 response 3601 seconds
  after it.
\<close>

theorem access_token_lifetime:
  assumes "tb_grant_type b = Some ''authorization_code''" and "tb_code b = Some c"
    and "authCodes s c = Some authCode"
    and "tb_client_id b = Some cid" and "cid \<noteq> []"
    and "clients s cid = None
         \<or> (\<exists>client. clients s cid = Some client
              \<and> Some (rc_clientSecret client) = tb_client_secret b)"
    and "\<not> now > ac_expiresAt authCode"
    and "ac_clientId authCode = cid"
    and "Some (ac_redirectUri authCode) = tb_redirect_uri b"
    and "tb_code_verifier b = Some v" and "v \<noteq> []" and "sha256 v = ac_codeChallenge authCode"
  shows "fst (token uuid1 uuid2 now now' b s)
           = Json 200 [(''access_token'', JString uuid1),
                       (''token_type'', JString ''Bearer''),
                       (''expires_in'', JNumber 3600),
                       (''refresh_token'', JString uuid2)]
       \<and> accessTokens (snd (token uuid1 uuid2 now now' b s)) uuid1
           = Some \<lparr>st_clientId = cid,
                   st_googleEmail = ac_googleEmail authCode,
                   st_expiresAt = now' + 3600 * 1000\<rparr>
       \<and> (\<forall>t. (requireAuth t (Some (''Bearer '' @ uuid1)) (snd (token uuid1 uuid2 now now' b s))
                  = Next)
               = (\<not> t > now' + 3600 * 1000))
       \<and> requireAuth (now' + 3599 * 1000) (Some (''Bearer '' @ uuid1))
            (snd (token uuid1 uuid2 now now' b s)) = Next
       \<and> requireAuth (now' + 3601 * 1000) (Some (''Bearer '' @ uuid1))
            (snd (token uuid1 uuid2 now now' b s))
           = Respond (Json 401 [(''error'', JString ''Unauthorized'')])
       \<and> (accessTokens s0 tok0 = Some stored0 \<longrightarrow>
            (requireAuth t0 (Some (''Bearer '' @ tok0)) s0 = Next)
              = (\<not> t0 > st_expiresAt stored0))
       \<and> (tb_grant_type rb = Some ''refresh_token''
            \<and> tb_client_id rb = Some rcid \<and> rcid \<noteq> []
            \<and> (clients rs rcid = None
                 \<or> (\<exists>client. clients rs rcid = Some client
                      \<and> Some (rc_clientSecret client) = tb_client_secret rb))
            \<and> map_get (refreshTokens rs) (tb_refresh_token rb) = Some rstored
            \<and> st_clientId rstored = rcid \<longrightarrow>
            fst (token uuid3 uuid4 later later' rb rs)
              = Json 200 [(''access_token'', JString uuid3),
                          (''token_type'', JString ''Bearer''),
                          (''expires_in'', JNumber 3600)]
            \<and> accessTokens (snd (token uuid3 uuid4 later later' rb rs)) uuid3
                = Some \<lparr>st_clientId = rcid,
                        st_googleEmail = st_googleEmail rstored,
                        st_expiresAt = later' + 3600 * 1000\<rparr>
            \<and> requireAuth (later' + 3599 * 1000) (Some (''Bearer '' @ uuid3))
                 (snd (token uuid3 uuid4 later later' rb rs)) = Next
            \<and> requireAuth (later' + 3601 * 1000) (Some (''Bearer '' @ uuid3))
                 (snd (token uuid3 uuid4 later later' rb rs))
                = Respond (Json 401 [(''error'', JString ''Unauthorized'')]))"
proof -
  have bearer: "requireAuth t (Some (''Bearer '' @ tok)) st
      = (if t > st_expiresAt stored then Respond (Json 401 [(''error'', JString ''Unauthorized'')])
         else Next)"
    if "accessTokens st tok = Some stored" for t tok st stored
    using that by (simp add: requireAuth_def unauthorized_def)
  have "token uuid1 uuid2 now now' b s = authorization_code_grant uuid1 uuid2 now now' b s"
    using assms(1,4,5,6) by (simp add: token_dispatch [where cid = cid])
  moreover have "Some (ac_clientId authCode) = tb_client_id b"
    using assms(4,8) by simp
  moreover have "\<not> (falsy (tb_code_verifier b)
      \<or> sha256 (the (tb_code_verifier b)) \<noteq> ac_codeChallenge authCode)"
    using assms(10-12) by (simp add: falsy_def)
  ultimately have run: "token uuid1 uuid2 now now' b s =
        (Json 200 [(''access_token'', JString uuid1),
                   (''token_type'', JString ''Bearer''),
                   (''expires_in'', JNumber 3600),
                   (''refresh_token'', JString uuid2)],
         s\<lparr>authCodes := (authCodes s)(c := None),
           accessTokens := (accessTokens s)(uuid1 \<mapsto>
             \<lparr>st_clientId = ac_clientId authCode,
              st_googleEmail = ac_googleEmail authCode,
              st_expiresAt = now' + 3600 * 1000\<rparr>),
           refreshTokens := (refreshTokens s)(uuid2 \<mapsto>
             \<lparr>st_clientId = ac_clientId authCode,
              st_googleEmail = ac_googleEmail authCode,
              st_expiresAt = 0\<rparr>)\<rparr>)"
    using assms(2,3,7,9) by (simp add: authorization_code_grant_result)
  have stored: "accessTokens (snd (token uuid1 uuid2 now now' b s)) uuid1
           = Some \<lparr>st_clientId = cid,
                   st_googleEmail = ac_googleEmail authCode,
                   st_expiresAt = now' + 3600 * 1000\<rparr>"
    using assms(8) by (simp add: run)
  have code_grant: "fst (token uuid1 uuid2 now now' b s)
           = Json 200 [(''access_token'', JString uuid1),
                       (''token_type'', JString ''Bearer''),
                       (''expires_in'', JNumber 3600),
                       (''refresh_token'', JString uuid2)]"
    by (simp add: run)
  have iff: "(requireAuth t (Some (''Bearer '' @ uuid1)) (snd (token uuid1 uuid2 now now' b s))
                  = Next)
               = (\<not> t > now' + 3600 * 1000)" for t
    using bearer [OF stored, of t] by simp
  have early: "requireAuth (now' + 3599 * 1000) (Some (''Bearer '' @ uuid1))
            (snd (token uuid1 uuid2 now now' b s)) = Next"
    using bearer [OF stored, of "now' + 3599 * 1000"] by simp
  have late: "requireAuth (now' + 3601 * 1000) (Some (''Bearer '' @ uuid1))
            (snd (token uuid1 uuid2 now now' b s))
           = Respond (Json 401 [(''error'', JString ''Unauthorized'')])"
    using bearer [OF stored, of "now' + 3601 * 1000"] by simp
  have any: "accessTokens s0 tok0 = Some stored0 \<longrightarrow>
            (requireAuth t0 (Some (''Bearer '' @ tok0)) s0 = Next)
              = (\<not> t0 > st_expiresAt stored0)"
    by (simp add: requireAuth_def)
  have refresh: "fst (token uuid3 uuid4 later later' rb rs)
              = Json 200 [(''access_token'', JString uuid3),
                          (''token_type'', JString ''Bearer''),
                          (''expires_in'', JNumber 3600)]
            \<and> accessTokens (snd (token uuid3 uuid4 later later' rb rs)) uuid3
                = Some \<lparr>st_clientId = rcid,
                        st_googleEmail = st_googleEmail rstored,
                        st_expiresAt = later' + 3600 * 1000\<rparr>
            \<and> requireAuth (later' + 3599 * 1000) (Some (''Bearer '' @ uuid3))
                 (snd (token uuid3 uuid4 later later' rb rs)) = Next
            \<and> requireAuth (later' + 3601 * 1000) (Some (''Bearer '' @ uuid3))
                 (snd (token uuid3 uuid4 later later' rb rs))
                = Respond (Json 401 [(''error'', JString ''Unauthorized'')])"
    if "tb_grant_type rb = Some ''refresh_token''
            \<and> tb_client_id rb = Some rcid \<and> rcid \<noteq> []
            \<and> (clients rs rcid = None
                 \<or> (\<exists>client. clients rs rcid = Some client
                      \<and> Some (rc_clientSecret client) = tb_client_secret rb))
            \<and> map_get (refreshTokens rs) (tb_refresh_token rb) = Some rstored
            \<and> st_clientId rstored = rcid"
  proof -
    have "token uuid3 uuid4 later later' rb rs = refresh_token_grant uuid3 later' rb rs"
      using that by (simp add: token_dispatch [where cid = rcid])
    then have issued: "token uuid3 uuid4 later later' rb rs =
        (Json 200 [(''access_token'', JString uuid3),
                   (''token_type'', JString ''Bearer''),
                   (''expires_in'', JNumber 3600)],
         rs\<lparr>accessTokens := (accessTokens rs)(uuid3 \<mapsto>
             \<lparr>st_clientId = st_clientId rstored,
              st_googleEmail = st_googleEmail rstored,
              st_expiresAt = later' + 3600 * 1000\<rparr>)\<rparr>)"
      using that by (simp add: refresh_token_grant_accepts [where stored = rstored])
    have kept: "accessTokens (snd (token uuid3 uuid4 later later' rb rs)) uuid3
                = Some \<lparr>st_clientId = rcid,
                        st_googleEmail = st_googleEmail rstored,
                        st_expiresAt = later' + 3600 * 1000\<rparr>"
      using that by (simp add: issued)
    show ?thesis
      using bearer [OF kept, of "later' + 3599 * 1000"] bearer [OF kept, of "later' + 3601 * 1000"]
        kept
      by (simp add: issued)
  qed
  from code_grant stored iff early late any refresh show ?thesis
    by blast
qed

theorem access_token_lifetime_witness:
  "tb_grant_type ex_code_body = Some ''authorization_code'' \<and> tb_code ex_code_body = Some ''code-1''
   \<and> authCodes ex_code_stores ''code-1'' = Some ex_code
   \<and> tb_client_id ex_code_body = Some ''client-1'' \<and> ''client-1'' \<noteq> []
   \<and> clients ex_code_stores ''client-1'' = None
   \<and> \<not> 5000 > ac_expiresAt ex_code \<and> ac_clientId ex_code = ''client-1''
   \<and> Some (ac_redirectUri ex_code) = tb_redirect_uri ex_code_body
   \<and> tb_code_verifier ex_code_body = Some ''dBjftJeZ4CVP-mB92K27uhbUJU1p1r_wW1gFWFOEjXk''
   \<and> sha256 ''dBjftJeZ4CVP-mB92K27uhbUJU1p1r_wW1gFWFOEjXk'' = ac_codeChallenge ex_code
   \<and> status (fst (token ''tok-2'' ''ref-2'' 5000 5001 ex_code_body ex_code_stores)) = 200
   \<and> accessTokens (snd (token ''tok-2'' ''ref-2'' 5000 5001 ex_code_body ex_code_stores)) ''tok-2''
       = Some \<lparr>st_clientId = ''client-1'', st_googleEmail = ''a@x.com'', st_expiresAt = 3605001\<rparr>
   \<and> requireAuth 3604001 (Some ''Bearer tok-2'')
        (snd (token ''tok-2'' ''ref-2'' 5000 5001 ex_code_body ex_code_stores)) = Next
   \<and> requireAuth 3606001 (Some ''Bearer tok-2'')
        (snd (token ''tok-2'' ''ref-2'' 5000 5001 ex_code_body ex_code_stores))
       = Respond (Json 401 [(''error'', JString ''Unauthorized'')])
   \<and> accessTokens ex_stores ''tok-1'' = Some ex_token
   \<and> requireAuth 1000 (Some ''Bearer tok-1'') ex_stores = Next
   \<and> requireAuth 1001 (Some ''Bearer tok-1'') ex_stores
       = Respond (Json 401 [(''error'', JString ''Unauthorized'')])
   \<and> tb_grant_type ex_refresh_body = Some ''refresh_token''
   \<and> map_get (refreshTokens ex_stores) (tb_refresh_token ex_refresh_body)
       = Some (ex_token\<lparr>st_expiresAt := 0\<rparr>)
   \<and> accessTokens (snd (token ''tok-3'' ''ref-3'' 6000 6001 ex_refresh_body ex_stores)) ''tok-3''
       = Some \<lparr>st_clientId = ''client-1'', st_googleEmail = ''a@x.com'', st_expiresAt = 3606001\<rparr>
   \<and> requireAuth 3605001 (Some ''Bearer tok-3'')
        (snd (token ''tok-3'' ''ref-3'' 6000 6001 ex_refresh_body ex_stores)) = Next
   \<and> requireAuth 3607001 (Some ''Bearer tok-3'')
        (snd (token ''tok-3'' ''ref-3'' 6000 6001 ex_refresh_body ex_stores))
       = Respond (Json 401 [(''error'', JString ''Unauthorized'')])"
proof -
  have pre: "tb_grant_type ex_code_body = Some ''authorization_code''"
    "tb_code ex_code_body = Some ''code-1''"
    "authCodes ex_code_stores ''code-1'' = Some ex_code"
    "tb_client_id ex_code_body = Some ''client-1''" "''client-1'' \<noteq> []"
    "clients ex_code_stores ''client-1'' = None
       \<or> (\<exists>client. clients ex_code_stores ''client-1'' = Some client
            \<and> Some (rc_clientSecret client) = tb_client_secret ex_code_body)"
    "\<not> 5000 > ac_expiresAt ex_code" "ac_clientId ex_code = ''client-1''"
    "Some (ac_redirectUri ex_code) = tb_redirect_uri ex_code_body"
    "tb_code_verifier ex_code_body = Some ''dBjftJeZ4CVP-mB92K27uhbUJU1p1r_wW1gFWFOEjXk''"
    "''dBjftJeZ4CVP-mB92K27uhbUJU1p1r_wW1gFWFOEjXk'' \<noteq> []"
    "sha256 ''dBjftJeZ4CVP-mB92K27uhbUJU1p1r_wW1gFWFOEjXk'' = ac_codeChallenge ex_code"
    by (simp_all add: sha256_rfc7636 ex_code_body_def ex_code_stores_def ex_stores_def
        ex_code_def)
  show ?thesis
    using access_token_lifetime [OF pre, where ?uuid1.0 = "''tok-2''" and ?uuid2.0 = "''ref-2''"
        and now' = 5001 and ?s0.0 = ex_stores and ?tok0.0 = "''tok-1''" and ?stored0.0 = ex_token
        and ?t0.0 = 1000 and rb = ex_refresh_body and rs = ex_stores and rcid = "''client-1''"
        and rstored = "ex_token\<lparr>st_expiresAt := 0\<rparr>" and ?uuid3.0 = "''tok-3''"
        and ?uuid4.0 = "''ref-3''" and later = 6000 and later' = 6001]
    by (simp add: token_def authorization_code_grant_def refresh_token_grant_def requireAuth_def
        unauthorized_def falsy_def map_get_def map_delete_def sha256_rfc7636
        ex_code_body_def ex_code_stores_def ex_code_def ex_refresh_body_def ex_stores_def
        ex_token_def)
qed

section \<open>Further properties\<close>

text \<open>
  Registration fails with \<^verbatim>\<open>invalid_client_metadata\<close> and changes nothing when
  \<^verbatim>\<open>redirect_uris\<close> is missing or empty. Otherwise it stores the client under the
  generated client id, with the generated secret, and answers with status 201.
\<close>

theorem register_stores_client:
  "(rb_redirect_uris body = None \<or> rb_redirect_uris body = Some [] \<longrightarrow>
      oauth_error (fst (register clientId clientSecret body s)) = Some ''invalid_client_metadata''
      \<and> status (fst (register clientId clientSecret body s)) = 400
      \<and> snd (register clientId clientSecret body s) = s)
   \<and> (rb_redirect_uris body = Some uris \<and> uris \<noteq> [] \<longrightarrow>
      status (fst (register clientId clientSecret body s)) = 201
      \<and> snd (register clientId clientSecret body s) =
          s\<lparr>clients := (clients s)(clientId \<mapsto>
              \<lparr>rc_clientId = clientId, rc_clientSecret = clientSecret, rc_redirectUris = uris,
               rc_clientName = (if falsy (rb_client_name body) then ''unknown''
                                else the (rb_client_name body))\<rparr>)\<rparr>)"
  by (auto simp add: register_def)

theorem register_stores_client_witness:
  "rb_redirect_uris (ex_register\<lparr>rb_redirect_uris := Some []\<rparr>) = Some []
   \<and> oauth_error (fst (register ''client-1'' ''secret-1'' (ex_register\<lparr>rb_redirect_uris := Some []\<rparr>)
        ex_stores)) = Some ''invalid_client_metadata''
   \<and> rb_redirect_uris ex_register = Some [''https://client.example/cb'']
   \<and> register ''client-1'' ''secret-1'' ex_register ex_stores =
        (Json 201 [(''client_id'', JString ''client-1''), (''client_secret'', JString ''secret-1''),
                   (''client_name'', JString ''unknown''),
                   (''redirect_uris'', JArray [JString ''https://client.example/cb''])],
         ex_registered_stores)"
  using
    register_stores_client [where body = "ex_register\<lparr>rb_redirect_uris := Some []\<rparr>"
      and clientId = "''client-1''" and clientSecret = "''secret-1''" and s = ex_stores]
    register_stores_client [where body = ex_register and uris = "[''https://client.example/cb'']"
      and clientId = "''client-1''" and clientSecret = "''secret-1''" and s = ex_stores]
  by (simp add: register_def ex_register_def ex_registered_stores_def ex_client_def
        ex_stores_def falsy_def)

text \<open>
  The scenario of the specification, on the example values: registration, the
  authorization request, the callback of the IdP, and the redemption of the code with the
  verifier of the challenge.
\<close>

theorem end_to_end_scenario:
  "register ''client-1'' ''secret-1'' ex_register ex_stores =
     (Json 201 [(''client_id'', JString ''client-1''), (''client_secret'', JString ''secret-1''),
                (''client_name'', JString ''unknown''),
                (''redirect_uris'', JArray [JString ''https://client.example/cb''])],
      ex_registered_stores)
   \<and> authorize ex_config ''state-1'' 100 ex_query ex_registered_stores =
     (Redirect (URL ''https://accounts.google.com/o/oauth2/v2/auth''
        [(''client_id'', ''google-id''),
         (''redirect_uri'', ''https://mcp.example/oauth/callback''),
         (''response_type'', ''code''),
         (''scope'', ''openid email''),
         (''state'', ''state-1''),
         (''access_type'', ''offline''),
         (''prompt'', ''consent'')]),
      ex_registered_stores\<lparr>pendingAuths := [''state-1'' \<mapsto> ex_pending]\<rparr>)
   \<and> callback None ex_parse (Resolved ''a@x.com'') ''code-1'' 200 ex_callback
       (ex_registered_stores\<lparr>pendingAuths := [''state-1'' \<mapsto> ex_pending]\<rparr>) =
     (Redirect (URL ''https://client.example/cb'' [(''code'', ''code-1''), (''state'', ''xyz'')]),
      ex_registered_stores\<lparr>authCodes := [''code-1'' \<mapsto> ex_code]\<rparr>)
   \<and> token ''tok-2'' ''ref-2'' 5000 5001 (ex_code_body\<lparr>tb_client_secret := Some ''secret-1''\<rparr>)
       (ex_registered_stores\<lparr>authCodes := [''code-1'' \<mapsto> ex_code]\<rparr>) =
     (Json 200 [(''access_token'', JString ''tok-2''), (''token_type'', JString ''Bearer''),
                (''expires_in'', JNumber 3600), (''refresh_token'', JString ''ref-2'')],
      ex_registered_stores\<lparr>accessTokens := (accessTokens ex_stores)(''tok-2'' \<mapsto>
           \<lparr>st_clientId = ''client-1'', st_googleEmail = ''a@x.com'', st_expiresAt = 3605001\<rparr>),
         refreshTokens := (refreshTokens ex_stores)(''ref-2'' \<mapsto>
           \<lparr>st_clientId = ''client-1'', st_googleEmail = ''a@x.com'', st_expiresAt = 0\<rparr>)\<rparr>)
   \<and> requireAuth 6000 (Some ''Bearer tok-2'')
       (ex_registered_stores\<lparr>accessTokens := (accessTokens ex_stores)(''tok-2'' \<mapsto>
           \<lparr>st_clientId = ''client-1'', st_googleEmail = ''a@x.com'', st_expiresAt = 3605001\<rparr>),
         refreshTokens := (refreshTokens ex_stores)(''ref-2'' \<mapsto>
           \<lparr>st_clientId = ''client-1'', st_googleEmail = ''a@x.com'', st_expiresAt = 0\<rparr>)\<rparr>)
       = Next"
proof (intro conjI)
  show "register ''client-1'' ''secret-1'' ex_register ex_stores =
     (Json 201 [(''client_id'', JString ''client-1''), (''client_secret'', JString ''secret-1''),
                (''client_name'', JString ''unknown''),
                (''redirect_uris'', JArray [JString ''https://client.example/cb''])],
      ex_registered_stores)"
    by (simp add: register_def ex_register_def ex_registered_stores_def ex_client_def
        ex_stores_def falsy_def)
  show "authorize ex_config ''state-1'' 100 ex_query ex_registered_stores =
     (Redirect (URL ''https://accounts.google.com/o/oauth2/v2/auth''
        [(''client_id'', ''google-id''),
         (''redirect_uri'', ''https://mcp.example/oauth/callback''),
         (''response_type'', ''code''),
         (''scope'', ''openid email''),
         (''state'', ''state-1''),
         (''access_type'', ''offline''),
         (''prompt'', ''consent'')]),
      ex_registered_stores\<lparr>pendingAuths := [''state-1'' \<mapsto> ex_pending]\<rparr>)"
    by (simp add: authorize_def googleAuthUrl_params ex_config_def ex_query_def ex_pending_def
        ex_registered_stores_def ex_stores_def falsy_def)
  show "callback None ex_parse (Resolved ''a@x.com'') ''code-1'' 200 ex_callback
       (ex_registered_stores\<lparr>pendingAuths := [''state-1'' \<mapsto> ex_pending]\<rparr>) =
     (Redirect (URL ''https://client.example/cb'' [(''code'', ''code-1''), (''state'', ''xyz'')]),
      ex_registered_stores\<lparr>authCodes := [''code-1'' \<mapsto> ex_code]\<rparr>)"
    by (simp add: callback_def callback_begin_def callback_resume_def allowedEmails_def
        falsy_def map_get_def map_delete_def url_set_def ex_callback_def ex_parse_def
        ex_pending_def ex_code_def ex_registered_stores_def ex_stores_def)
  show "token ''tok-2'' ''ref-2'' 5000 5001 (ex_code_body\<lparr>tb_client_secret := Some ''secret-1''\<rparr>)
       (ex_registered_stores\<lparr>authCodes := [''code-1'' \<mapsto> ex_code]\<rparr>) =
     (Json 200 [(''access_token'', JString ''tok-2''), (''token_type'', JString ''Bearer''),
                (''expires_in'', JNumber 3600), (''refresh_token'', JString ''ref-2'')],
      ex_registered_stores\<lparr>accessTokens := (accessTokens ex_stores)(''tok-2'' \<mapsto>
           \<lparr>st_clientId = ''client-1'', st_googleEmail = ''a@x.com'', st_expiresAt = 3605001\<rparr>),
         refreshTokens := (refreshTokens ex_stores)(''ref-2'' \<mapsto>
           \<lparr>st_clientId = ''client-1'', st_googleEmail = ''a@x.com'', st_expiresAt = 0\<rparr>)\<rparr>)"
    by (simp add: token_def authorization_code_grant_def falsy_def map_get_def map_delete_def
        sha256_rfc7636 ex_code_body_def ex_code_def ex_client_def ex_registered_stores_def
        ex_stores_def)
  show "requireAuth 6000 (Some ''Bearer tok-2'')
       (ex_registered_stores\<lparr>accessTokens := (accessTokens ex_stores)(''tok-2'' \<mapsto>
           \<lparr>st_clientId = ''client-1'', st_googleEmail = ''a@x.com'', st_expiresAt = 3605001\<rparr>),
         refreshTokens := (refreshTokens ex_stores)(''ref-2'' \<mapsto>
           \<lparr>st_clientId = ''client-1'', st_googleEmail = ''a@x.com'', st_expiresAt = 0\<rparr>)\<rparr>)
       = Next"
    by (simp add: requireAuth_def)
qed


lemma callback_unknown_state:
  "falsy (cq_error q) \<Longrightarrow> map_get (pendingAuths s) (cq_state q) = None \<Longrightarrow>
     callback env parse outcome ourCode now q s
       = (Send 400 ''Invalid or expired state parameter'', s)"
  by (simp add: callback_def callback_begin_def)

lemma callback_resume_pendingAuths:
  "pendingAuths (snd (callback_resume env parse outcome ourCode now pending s)) = pendingAuths s"
  by (simp add: callback_resume_def Let_def split: exchange_outcome.split option.split)

text \<open>
  The \<^verbatim>\<open>state\<close> of a pending authorization is good for one callback. A callback without
  error that finds the pending authorization removes it, whatever the exchange, the
  allowlist and the redirect URI then give; when the exchange throws the answer is
  status 500 and nothing else changes. A later callback with that \<^verbatim>\<open>state\<close> is answered
  with status 400 and changes nothing.
\<close>

theorem callback_consumes_state:
  assumes "falsy (cq_error q)" and "cq_state q = Some st" and "pendingAuths s st = Some pending"
  shows "pendingAuths (snd (callback env parse outcome ourCode now q s))
           = (pendingAuths s)(st := None)
       \<and> callback env parse Threw ourCode now q s
           = (Send 500 ''Authentication failed'', s\<lparr>pendingAuths := (pendingAuths s)(st := None)\<rparr>)
       \<and> (falsy (cq_error q') \<and> cq_state q' = Some st \<longrightarrow>
            callback env' parse' outcome' ourCode' now' q'
                (snd (callback env parse outcome ourCode now q s))
              = (Send 400 ''Invalid or expired state parameter'',
                 snd (callback env parse outcome ourCode now q s)))"
proof -
  have started: "callback_begin q s = (Inr pending, s\<lparr>pendingAuths := (pendingAuths s)(st := None)\<rparr>)"
    using assms by (rule callback_begin_found)
  have gone: "pendingAuths (snd (callback env parse outcome ourCode now q s))
           = (pendingAuths s)(st := None)"
    by (simp add: callback_def started callback_resume_pendingAuths)
  have "callback env' parse' outcome' ourCode' now' q'
                (snd (callback env parse outcome ourCode now q s))
              = (Send 400 ''Invalid or expired state parameter'',
                 snd (callback env parse outcome ourCode now q s))"
    if "falsy (cq_error q')" and "cq_state q' = Some st"
    using that by (intro callback_unknown_state) (simp_all add: gone map_get_def)
  then show ?thesis
    by (simp add: gone) (simp add: callback_def started callback_resume_def)
qed

theorem callback_consumes_state_witness:
  "falsy (cq_error ex_callback) \<and> cq_state ex_callback = Some ''state-1''
   \<and> pendingAuths ex_pending_stores ''state-1'' = Some ex_pending
   \<and> callback None ex_parse Threw ''code-1'' 200 ex_callback ex_pending_stores
       = (Send 500 ''Authentication failed'', ex_stores)
   \<and> callback None ex_parse (Resolved ''a@x.com'') ''code-2'' 300 ex_callback
        (snd (callback None ex_parse Threw ''code-1'' 200 ex_callback ex_pending_stores))
       = (Send 400 ''Invalid or expired state parameter'', ex_stores)"
proof -
  have pre: "falsy (cq_error ex_callback)" "cq_state ex_callback = Some ''state-1''"
    "pendingAuths ex_pending_stores ''state-1'' = Some ex_pending"
    by (simp_all add: ex_callback_def ex_pending_stores_def falsy_def)
  show ?thesis
    using callback_consumes_state [OF pre, where env = None and parse = ex_parse
        and outcome = Threw and ourCode = "''code-1''" and now = 200 and q' = ex_callback
        and env' = None and parse' = ex_parse and outcome' = "Resolved ''a@x.com''"
        and ourCode' = "''code-2''" and now' = 300]
    by (simp add: callback_def callback_begin_def callback_resume_def falsy_def map_get_def
        map_delete_def ex_callback_def ex_pending_stores_def ex_stores_def)
qed

text \<open>
  The authorization code is stored before the client's redirect URI is parsed: when
  \<^verbatim>\<open>new URL(pending.redirectUri)\<close> throws, the callback is answered with status 500 and
  the code it minted stays in the store.
\<close>

theorem callback_unparsable_redirect_keeps_code:
  assumes "allowedEmails env = None \<or> email \<in> set (the (allowedEmails env))"
    and "parse (pa_redirectUri pending) = None"
  shows "callback_resume env parse (Resolved email) ourCode now pending s =
           (Send 500 ''Authentication failed'',
            s\<lparr>authCodes := (authCodes s)(ourCode \<mapsto>
                \<lparr>ac_code = ourCode,
                 ac_clientId = pa_clientId pending,
                 ac_redirectUri = pa_redirectUri pending,
                 ac_codeChallenge = pa_codeChallenge pending,
                 ac_codeChallengeMethod = pa_codeChallengeMethod pending,
                 ac_googleEmail = email,
                 ac_expiresAt = now + 5 * 60000\<rparr>)\<rparr>)"
  using assms by (auto simp add: callback_resume_def Let_def)

theorem callback_unparsable_redirect_keeps_code_witness:
  "allowedEmails None = None
   \<and> ex_parse (pa_redirectUri (ex_pending\<lparr>pa_redirectUri := ''client.example''\<rparr>)) = None
   \<and> callback_resume None ex_parse (Resolved ''a@x.com'') ''code-1'' 200
        (ex_pending\<lparr>pa_redirectUri := ''client.example''\<rparr>) ex_stores =
        (Send 500 ''Authentication failed'',
         ex_stores\<lparr>authCodes := [''code-1'' \<mapsto> ex_code\<lparr>ac_redirectUri := ''client.example''\<rparr>]\<rparr>)"
proof -
  have pre: "allowedEmails None = None
      \<or> ''a@x.com'' \<in> set (the (allowedEmails None))"
    "ex_parse (pa_redirectUri (ex_pending\<lparr>pa_redirectUri := ''client.example''\<rparr>)) = None"
    by (simp_all add: allowedEmails_def ex_parse_def)
  show ?thesis
    using callback_unparsable_redirect_keeps_code
      [where env = None and email = "''a@x.com''" and parse = ex_parse
        and pending = "ex_pending\<lparr>pa_redirectUri := ''client.example''\<rparr>"
        and ourCode = "''code-1''" and now = 200 and s = ex_stores, OF pre]
    by (simp add: allowedEmails_def ex_parse_def ex_pending_def ex_code_def ex_stores_def)
qed

text \<open>
  A call of the token endpoint that passes the client checks with a grant type other
  than \<^verbatim>\<open>authorization_code\<close> and \<^verbatim>\<open>refresh_token\<close> (or none) is answered with status
  400 and \<^verbatim>\<open>unsupported_grant_type\<close>, and changes nothing.
\<close>

theorem token_unsupported_grant_type:
  assumes "tb_client_id b = Some cid" and "cid \<noteq> []"
    and "clients s cid = None
         \<or> (\<exists>client. clients s cid = Some client
              \<and> Some (rc_clientSecret client) = tb_client_secret b)"
    and "tb_grant_type b \<noteq> Some ''authorization_code''"
    and "tb_grant_type b \<noteq> Some ''refresh_token''"
  shows "token uuid1 uuid2 now now' b s
           = (Json 400 [(''error'', JString ''unsupported_grant_type'')], s)"
  using assms by (simp add: token_dispatch [where cid = cid])

theorem token_unsupported_grant_type_witness:
  "tb_client_id (ex_refresh_body\<lparr>tb_grant_type := Some ''password''\<rparr>) = Some ''client-1''
   \<and> ''client-1'' \<noteq> [] \<and> clients ex_stores ''client-1'' = None
   \<and> tb_grant_type (ex_refresh_body\<lparr>tb_grant_type := Some ''password''\<rparr>)
       \<noteq> Some ''authorization_code''
   \<and> tb_grant_type (ex_refresh_body\<lparr>tb_grant_type := Some ''password''\<rparr>)
       \<noteq> Some ''refresh_token''
   \<and> token ''tok-2'' ''ref-2'' 5000 5001 (ex_refresh_body\<lparr>tb_grant_type := Some ''password''\<rparr>)
        ex_stores
       = (Json 400 [(''error'', JString ''unsupported_grant_type'')], ex_stores)"
proof -
  have pre: "tb_client_id (ex_refresh_body\<lparr>tb_grant_type := Some ''password''\<rparr>) = Some ''client-1''"
    "''client-1'' \<noteq> []"
    "clients ex_stores ''client-1'' = None
       \<or> (\<exists>client. clients ex_stores ''client-1'' = Some client
            \<and> Some (rc_clientSecret client)
                = tb_client_secret (ex_refresh_body\<lparr>tb_grant_type := Some ''password''\<rparr>))"
    "tb_grant_type (ex_refresh_body\<lparr>tb_grant_type := Some ''password''\<rparr>)
       \<noteq> Some ''authorization_code''"
    "tb_grant_type (ex_refresh_body\<lparr>tb_grant_type := Some ''password''\<rparr>)
       \<noteq> Some ''refresh_token''"
    by (simp_all add: ex_refresh_body_def ex_stores_def)
  show ?thesis
    using token_unsupported_grant_type [OF pre, of "''tok-2''" "''ref-2''" 5000 5001]
    by (simp add: pre ex_stores_def)
qed

text \<open>
  The cleanup timer never touches the registered clients and the refresh tokens, and
  the bearer check does not depend on it: at any time from the run of the timer on,
  \<^verbatim>\<open>requireAuth\<close> answers on the cleaned stores what it answers on the stores as they
  were.
\<close>

theorem sweep_is_advisory:
  "clients (sweep t s) = clients s \<and> refreshTokens (sweep t s) = refreshTokens s
   \<and> (t \<le> now \<longrightarrow> requireAuth now authHeader (sweep t s) = requireAuth now authHeader s)"
  by (auto simp add: sweep_def requireAuth_def split: option.split)

theorem sweep_is_advisory_witness:
  "refreshTokens (sweep 2000 ex_stores) = refreshTokens ex_stores
   \<and> accessTokens (sweep 2000 ex_stores) ''tok-1'' = None
   \<and> (2000::int) \<le> 2500
   \<and> requireAuth 2500 (Some ''Bearer tok-1'') (sweep 2000 ex_stores)
       = Respond (Json 401 [(''error'', JString ''Unauthorized'')])
   \<and> requireAuth 2500 (Some ''Bearer tok-1'') ex_stores
       = Respond (Json 401 [(''error'', JString ''Unauthorized'')])"
  using sweep_is_advisory [of 2000 ex_stores 2500 "Some ''Bearer tok-1''"]
  by (simp add: sweep_def requireAuth_def unauthorized_def ex_stores_def ex_token_def)

end
